theory Spec2Isabelle
  imports Complex_Main
begin

section \<open>JSON values as Python sees them\<close>

text \<open>
  Both scripts work on the values that \<^verbatim>\<open>json.load\<close> / \<^verbatim>\<open>json.loads\<close> return:
  \<^verbatim>\<open>None\<close>, booleans, numbers, strings, lists and dicts. A dict keeps its items in
  insertion order, so it is an association list here; \<^verbatim>\<open>json.load\<close> never returns a
  dict with a repeated key. Finite floats are kept by their rational value; the
  non-finite floats that \<^verbatim>\<open>json.load\<close> accepts as an extension are left out.
\<close>

datatype json =
    JNull
  | JBool bool
  | JInt int
  | JFloat rat
  | JStr string
  | JArr "json list"
  | JObj "(string \<times> json) list"

text \<open>The exceptions the two scripts can meet. All of them derive from \<^verbatim>\<open>Exception\<close>.\<close>

datatype py_error =
    ValueError string
  | RuntimeError string
  | FileNotFoundError string
  | CalledProcessError int string string
  | AttributeError string string
  | TypeError string
  | JSONDecodeError string
  | RecursionError string
  | APIError string
  | OSError string

fun type_name :: "json \<Rightarrow> string" where
  "type_name JNull = ''NoneType''"
| "type_name (JBool b) = ''bool''"
| "type_name (JInt n) = ''int''"
| "type_name (JFloat r) = ''float''"
| "type_name (JStr s) = ''str''"
| "type_name (JArr xs) = ''list''"
| "type_name (JObj kvs) = ''dict''"

text \<open>Truth value of a JSON value in a Python condition (\<^verbatim>\<open>if x\<close>, \<^verbatim>\<open>not x\<close>).\<close>

fun truthy :: "json \<Rightarrow> bool" where
  "truthy JNull = False"
| "truthy (JBool b) = b"
| "truthy (JInt n) = (n \<noteq> 0)"
| "truthy (JFloat r) = (r \<noteq> 0)"
| "truthy (JStr s) = (s \<noteq> [])"
| "truthy (JArr xs) = (xs \<noteq> [])"
| "truthy (JObj kvs) = (kvs \<noteq> [])"

text \<open>Lists and dicts cannot be members of a Python set.\<close>

fun hashable :: "json \<Rightarrow> bool" where
  "hashable (JArr xs) = False"
| "hashable (JObj kvs) = False"
| "hashable v = True"

definition unhashable_type :: "json \<Rightarrow> string" where
  "unhashable_type v = ''unhashable type: '' @ [CHR 0x27] @ type_name v @ [CHR 0x27]"

text \<open>
  \<^verbatim>\<open>obj.get(key, default)\<close>: only a dict has the method; on anything else Python
  raises \<^verbatim>\<open>AttributeError\<close>.
\<close>

fun py_get :: "json \<Rightarrow> string \<Rightarrow> json \<Rightarrow> py_error + json" where
  "py_get (JObj kvs) k d = Inr (case map_of kvs k of None \<Rightarrow> d | Some v \<Rightarrow> v)"
| "py_get v k d = Inl (AttributeError (type_name v) ''get'')"

text \<open>\<^verbatim>\<open>obj.items()\<close>, again a method of dicts only.\<close>

fun py_items :: "json \<Rightarrow> py_error + (string \<times> json) list" where
  "py_items (JObj kvs) = Inr kvs"
| "py_items v = Inl (AttributeError (type_name v) ''items'')"

text \<open>
  Iterating over a value (\<^verbatim>\<open>for x in v\<close>): a list gives its items, a dict its keys,
  a string its characters; nothing else is iterable.
\<close>

fun py_iter :: "json \<Rightarrow> py_error + json list" where
  "py_iter (JArr xs) = Inr xs"
| "py_iter (JObj kvs) = Inr (map (\<lambda>kv. JStr (fst kv)) kvs)"
| "py_iter (JStr s) = Inr (map (\<lambda>c. JStr [c]) s)"
| "py_iter v = Inl (TypeError ([CHR 0x27] @ type_name v @ [CHR 0x27] @ '' object is not iterable''))"

section \<open>The subgraph filter of the static path (generate\_table.py)\<close>

text \<open>
  \<^verbatim>\<open>details.get(key, {}).get('model')\<close> of lines 68 and 69: the endpoint id
  nested one level below \<^verbatim>\<open>source\<close> or \<^verbatim>\<open>target\<close>; \<^verbatim>\<open>None\<close> when either
  level is missing.
\<close>

definition endpoint_id :: "json \<Rightarrow> string \<Rightarrow> py_error + json" where
  "endpoint_id details key =
     (case py_get details key (JObj []) of Inl e \<Rightarrow> Inl e | Inr nested \<Rightarrow>
        py_get nested ''model'' JNull)"

text \<open>The normalized relationship appended at lines 74 to 78.\<close>

definition relationship :: "json \<Rightarrow> json \<Rightarrow> json \<Rightarrow> json" where
  "relationship source_id target_id description =
     JObj [(''source'', source_id), (''target'', target_id), (''description'', description)]"

text \<open>
  Lines 65 to 78 of \<^verbatim>\<open>get_structured_model_data\<close>: the loop over
  \<^verbatim>\<open>model.get('relations', {}).items()\<close>. The two accumulators are
  \<^verbatim>\<open>involved_element_ids\<close> (a set, kept as the list of added ids) and
  \<^verbatim>\<open>relationships\<close>. Adding a list or a dict to the set raises \<^verbatim>\<open>TypeError\<close>.
\<close>

fun relations_loop ::
  "(string \<times> json) list \<Rightarrow> json list \<Rightarrow> json list \<Rightarrow> py_error + (json list \<times> json list)" where
  "relations_loop [] involved_element_ids relationships =
     Inr (involved_element_ids, relationships)"
| "relations_loop ((rel_id, details) # rest) involved_element_ids relationships =
     (case endpoint_id details ''source'' of Inl e \<Rightarrow> Inl e | Inr source_id \<Rightarrow>
     (case endpoint_id details ''target'' of Inl e \<Rightarrow> Inl e | Inr target_id \<Rightarrow>
       if truthy source_id \<and> truthy target_id then
         if \<not> hashable source_id then Inl (TypeError (unhashable_type source_id))
         else if \<not> hashable target_id then Inl (TypeError (unhashable_type target_id))
         else
           (case py_get details ''title'' (JStr ''No description'') of Inl e \<Rightarrow> Inl e | Inr title \<Rightarrow>
              relations_loop rest
                (involved_element_ids @ [source_id, target_id])
                (relationships @ [relationship source_id target_id title]))
       else relations_loop rest involved_element_ids relationships))"

text \<open>The value built for one kept element (lines 82 to 87).\<close>

definition element_entry :: "json \<Rightarrow> py_error + json" where
  "element_entry details =
     (case py_get details ''title'' JNull of Inl e \<Rightarrow> Inl e | Inr title \<Rightarrow>
     (case py_get details ''kind'' JNull of Inl e \<Rightarrow> Inl e | Inr kind \<Rightarrow>
     (case py_get details ''description'' JNull of Inl e \<Rightarrow> Inl e | Inr description \<Rightarrow>
     (case py_get details ''technology'' JNull of Inl e \<Rightarrow> Inl e | Inr technology \<Rightarrow>
        Inr (JObj [(''title'', title), (''kind'', kind),
                   (''description'', description), (''technology'', technology)])))))"

text \<open>
  The dict comprehension of lines 81 to 90. An element key is a string, and a string
  is equal to a member of the id set only if that member is the same string.
\<close>

fun filtered_elements :: "json list \<Rightarrow> (string \<times> json) list \<Rightarrow> py_error + (string \<times> json) list" where
  "filtered_elements involved_element_ids [] = Inr []"
| "filtered_elements involved_element_ids ((element_id, details) # rest) =
     (if JStr element_id \<in> set involved_element_ids then
        (case element_entry details of Inl e \<Rightarrow> Inl e | Inr entry \<Rightarrow>
        (case filtered_elements involved_element_ids rest of Inl e \<Rightarrow> Inl e | Inr out \<Rightarrow>
           Inr ((element_id, entry) # out)))
      else filtered_elements involved_element_ids rest)"

text \<open>
  Lines 60 to 95 of \<^verbatim>\<open>get_structured_model_data\<close>, on the parsed model document:
  the filter itself. \<^verbatim>\<open>all_elements\<close> is fetched first, the relations are walked,
  and only then are the items of \<^verbatim>\<open>all_elements\<close> asked for.
\<close>

definition filter_model :: "json \<Rightarrow> py_error + json" where
  "filter_model model =
     (case py_get model ''elements'' (JObj []) of Inl e \<Rightarrow> Inl e | Inr all_elements \<Rightarrow>
     (case py_get model ''relations'' (JObj []) of Inl e \<Rightarrow> Inl e | Inr relations \<Rightarrow>
     (case py_items relations of Inl e \<Rightarrow> Inl e | Inr rel_items \<Rightarrow>
     (case relations_loop rel_items [] [] of Inl e \<Rightarrow> Inl e | Inr (involved_element_ids, relationships) \<Rightarrow>
     (case py_items all_elements of Inl e \<Rightarrow> Inl e | Inr elem_items \<Rightarrow>
     (case filtered_elements involved_element_ids elem_items of Inl e \<Rightarrow> Inl e | Inr elems \<Rightarrow>
        Inr (JObj [(''elements'', JObj elems), (''relationships'', JArr relationships)])))))))"


section \<open>Strings\<close>

text \<open>
  A Python string is a list of characters here, with code points below 256.
\<close>

definition digit_chars :: string where
  "digit_chars = ''0123456789''"

fun show_nat :: "nat \<Rightarrow> string" where
  "show_nat n =
     (if n < 10 then [digit_chars ! n]
      else show_nat (n div 10) @ [digit_chars ! (n mod 10)])"

declare show_nat.simps [simp del]

definition show_int :: "int \<Rightarrow> string" where
  "show_int i = (if i < 0 then ''-'' @ show_nat (nat (- i)) else show_nat (nat i))"

text \<open>\<^verbatim>\<open>sep.join(xs)\<close>.\<close>

fun join :: "string \<Rightarrow> string list \<Rightarrow> string" where
  "join sep [] = []"
| "join sep [x] = x"
| "join sep (x # y # ys) = x @ sep @ join sep (y # ys)"

text \<open>
  \<^verbatim>\<open>str.isspace\<close> on one character, and \<^verbatim>\<open>str.strip()\<close>, which removes the
  whitespace at both ends.
\<close>

definition is_space :: "char \<Rightarrow> bool" where
  "is_space c =
     (let n = (of_char c :: nat)
      in (9 \<le> n \<and> n \<le> 13) \<or> (28 \<le> n \<and> n \<le> 32) \<or> n = 133 \<or> n = 160)"

definition strip :: "string \<Rightarrow> string" where
  "strip s = rev (dropWhile is_space (rev (dropWhile is_space s)))"

section \<open>The Python library and the world outside\<close>

text \<open>
  What the scripts use of Python's library without defining it: the JSON parser,
  which returns a value or raises (\<^verbatim>\<open>JSONDecodeError\<close> on text that is not JSON,
  but also \<^verbatim>\<open>ValueError\<close> on an integer with too many digits and
  \<^verbatim>\<open>RecursionError\<close> on nesting that is too deep), the text Python prints for
  a float, a list or a dict inside an f-string, the finite float that \<^verbatim>\<open>float\<close>
  makes of a number literal, if it is finite, and the depth of nesting at which the
  interpreter raises \<^verbatim>\<open>RecursionError\<close>.
\<close>

record python =
  json_loads :: "string \<Rightarrow> py_error + json"
  py_repr :: "json \<Rightarrow> string"
  py_float :: "string \<Rightarrow> rat option"
  recursion_limit :: nat

text \<open>A value inside an f-string, \<^verbatim>\<open>f"{v}"\<close>.\<close>

fun format_value :: "python \<Rightarrow> json \<Rightarrow> string" where
  "format_value py (JStr s) = s"
| "format_value py JNull = ''None''"
| "format_value py (JBool b) = (if b then ''True'' else ''False'')"
| "format_value py (JInt n) = show_int n"
| "format_value py v = py_repr py v"

text \<open>
  A printed line is either text or a fixed prefix followed by \<^verbatim>\<open>str(e)\<close> of an
  exception, whose wording is Python's.
\<close>

datatype printed = Line string | ErrorLine string py_error

datatype level = INFO | ERROR

text \<open>What \<^verbatim>\<open>subprocess.run("npm run export:json", ...)\<close> did.\<close>

record npm_result =
  returncode :: int
  npm_stdout :: string
  npm_stderr :: string
  exported :: "string option"

text \<open>
  The state the scripts read and change: the environment variable, the global
  \<^verbatim>\<open>client\<close>, the files by path (and the paths that cannot be opened for writing,
  with the message of the \<^verbatim>\<open>OSError\<close>), the outcome of creating \<^verbatim>\<open>./dist\<close>, the
  export command, the inference service (its answer to the data it is sent, and the
  calls made so far), the printed lines, the exception that writing to standard
  output raises when standard output is closed or broken, and the log.
\<close>

record world =
  api_key :: "string option"
  client :: "string option"
  files :: "string \<rightharpoonup> string"
  write_errors :: "string \<rightharpoonup> string"
  mkdir_error :: "py_error option"
  npm :: npm_result
  llm :: "json \<Rightarrow> py_error + string option"
  llm_calls :: "json list"
  stdout :: "printed list"
  stdout_error :: "py_error option"
  log :: "(level \<times> string) list"

text \<open>
  A step of a script takes the world and gives a result or an exception, with the
  world as the step left it. \<open>and_then\<close> runs a second step after a first one that
  did not raise.
\<close>

type_synonym 'a step = "world \<Rightarrow> (py_error + 'a) \<times> world"

definition raise :: "py_error \<Rightarrow> 'a step" where
  "raise e w = (Inl e, w)"

definition and_then :: "'a step \<Rightarrow> ('a \<Rightarrow> 'b step) \<Rightarrow> 'b step" where
  "and_then m f w = (case m w of (Inl e, w1) \<Rightarrow> (Inl e, w1) | (Inr x, w1) \<Rightarrow> f x w1)"

text \<open>
  \<^verbatim>\<open>print(...)\<close> writes to standard output, and raises when that cannot be written.
\<close>

definition emit :: "printed \<Rightarrow> unit step" where
  "emit line w =
     (case stdout_error w of
        Some e \<Rightarrow> (Inl e, w)
      | None \<Rightarrow> (Inr (), w\<lparr>stdout := stdout w @ [line]\<rparr>))"

definition print :: "string \<Rightarrow> unit step" where
  "print s = emit (Line s)"

definition print_error :: "string \<Rightarrow> py_error \<Rightarrow> unit step" where
  "print_error s e = emit (ErrorLine s e)"

text \<open>
  \<^verbatim>\<open>logging.info\<close> and \<^verbatim>\<open>logging.error\<close>; the logging module does not let a failure
  of its own handler reach the caller.
\<close>

definition logging :: "level \<Rightarrow> string \<Rightarrow> world \<Rightarrow> world" where
  "logging l s w = w\<lparr>log := log w @ [(l, s)]\<rparr>"

text \<open>\<^verbatim>\<open>with open(path, 'w') as f: f.write(text)\<close>.\<close>

definition write_file :: "string \<Rightarrow> string \<Rightarrow> unit step" where
  "write_file path text w =
     (case write_errors w path of
        Some msg \<Rightarrow> (Inl (OSError msg), w)
      | None \<Rightarrow> (Inr (), w\<lparr>files := (files w)(path \<mapsto> text)\<rparr>))"

section \<open>The JSON text that \<^verbatim>\<open>json.dump\<close> writes\<close>

text \<open>
  \<^verbatim>\<open>json.dump(obj, f, indent=2)\<close> with its defaults. Inside a string a quote, a
  backslash and the five short control characters get their two-character escapes;
  every other character outside the range from space to \<^verbatim>\<open>~\<close> is written as
  \<^verbatim>\<open>\u00\<close> and two lower-case hex digits. A non-empty list or dict puts each item on
  a line of its own, two spaces deeper than the line of its bracket, with \<^verbatim>\<open>,\<close>
  after every item but the last and \<^verbatim>\<open>: \<close> between a key and its value. A float
  is written as Python prints it.
\<close>

definition hex_chars :: string where
  "hex_chars = ''0123456789abcdef''"

definition escape_char :: "char \<Rightarrow> string" where
  "escape_char c =
     (let n = (of_char c :: nat) in
      if n = 0x22 then [CHR 0x5C, CHR 0x22]
      else if n = 0x5C then [CHR 0x5C, CHR 0x5C]
      else if n = 0x0A then [CHR 0x5C, CHR ''n'']
      else if n = 0x0D then [CHR 0x5C, CHR ''r'']
      else if n = 0x09 then [CHR 0x5C, CHR ''t'']
      else if n = 0x08 then [CHR 0x5C, CHR ''b'']
      else if n = 0x0C then [CHR 0x5C, CHR ''f'']
      else if 0x20 \<le> n \<and> n \<le> 0x7E then [c]
      else [CHR 0x5C, CHR ''u'', CHR ''0'', CHR ''0'',
            hex_chars ! (n div 16), hex_chars ! (n mod 16)])"

definition json_quote :: "string \<Rightarrow> string" where
  "json_quote s = [CHR 0x22] @ concat (map escape_char s) @ [CHR 0x22]"

definition newline_indent :: "nat \<Rightarrow> string" where
  "newline_indent level = CHR 0x0A # replicate (2 * level) CHR '' ''"

fun json_text :: "python \<Rightarrow> nat \<Rightarrow> json \<Rightarrow> string" where
  "json_text py level JNull = ''null''"
| "json_text py level (JBool b) = (if b then ''true'' else ''false'')"
| "json_text py level (JInt n) = show_int n"
| "json_text py level (JFloat r) = py_repr py (JFloat r)"
| "json_text py level (JStr s) = json_quote s"
| "json_text py level (JArr xs) =
     (if xs = [] then ''[]''
      else ''['' @ newline_indent (Suc level)
           @ join ('','' @ newline_indent (Suc level)) (map (json_text py (Suc level)) xs)
           @ newline_indent level @ '']'')"
| "json_text py level (JObj kvs) =
     (if kvs = [] then ''{}''
      else ''{'' @ newline_indent (Suc level)
           @ join ('','' @ newline_indent (Suc level))
               (map (\<lambda>kv. json_quote (fst kv) @ '': '' @ json_text py (Suc level) (snd kv)) kvs)
           @ newline_indent level @ ''}'')"

definition json_dump :: "python \<Rightarrow> json \<Rightarrow> string" where
  "json_dump py v = json_text py 0 v"

section \<open>The static path (generate\_table.py)\<close>

definition MODEL_JSON_PATH :: string where
  "MODEL_JSON_PATH = ''dist/model.json''"

definition TABLE_OUTPUT_PATH :: string where
  "TABLE_OUTPUT_PATH = ''dist/FirewallRules.md''"

definition OPENAI_MODEL :: string where
  "OPENAI_MODEL = ''gpt-4o-mini-2024-07-18''"

definition configure_llm :: "unit step" where
  "configure_llm w =
     (case api_key w of
        None \<Rightarrow> raise (ValueError ''OPENAI_API_KEY not found. Please add it to your .env file.'') w
      | Some k \<Rightarrow>
          if k = [] then
            raise (ValueError ''OPENAI_API_KEY not found. Please add it to your .env file.'') w
          else print ''OpenAI client configured successfully.'' (w\<lparr>client := Some k\<rparr>))"

text \<open>
  The \<^verbatim>\<open>try\<close> of \<^verbatim>\<open>export_model_to_json\<close> catches only
  \<^verbatim>\<open>CalledProcessError\<close>, which it prints and raises again.
\<close>

definition export_model_to_json :: "unit step" where
  "export_model_to_json =
     and_then (print ''Step 1: Exporting LikeC4 model to JSON via npm script...'') (\<lambda>u w.
       if files w ''package.json'' = None then
         raise (FileNotFoundError
           ''package.json not found. This script must be run from the project root.'') w
       else
         (case mkdir_error w of
            Some e \<Rightarrow> raise e w
          | None \<Rightarrow>
              let result = npm w;
                  w1 = (case exported result of
                          None \<Rightarrow> w
                        | Some text \<Rightarrow> w\<lparr>files := (files w)(MODEL_JSON_PATH \<mapsto> text)\<rparr>)
              in
              if returncode result \<noteq> 0 then
                and_then (print (''Error exporting LikeC4 model. Return code: ''
                                  @ show_int (returncode result))) (\<lambda>u.
                and_then (print (''Stdout: '' @ npm_stdout result
                                  @ ''\<newline>Stderr: '' @ npm_stderr result)) (\<lambda>u.
                  raise (CalledProcessError (returncode result)
                           (npm_stdout result) (npm_stderr result)))) w1
              else
                and_then (if npm_stderr result \<noteq> []
                          then print (''[npm script stderr]:\<newline>'' @ npm_stderr result)
                          else Pair (Inr ())) (\<lambda>u.
                  print (''Model exported successfully to '' @ MODEL_JSON_PATH)) w1))"

definition get_structured_model_data :: "python \<Rightarrow> json step" where
  "get_structured_model_data py =
     and_then (print ''Step 2: Parsing and intelligently filtering model.json...'') (\<lambda>u w.
       case files w MODEL_JSON_PATH of
         None \<Rightarrow>
           raise (FileNotFoundError
              ([CHR 0x27] @ MODEL_JSON_PATH @ [CHR 0x27] @
               '' not found. Please run 'npm run export:json' first.'')) w
       | Some text \<Rightarrow>
           (case json_loads py text of
              Inl e \<Rightarrow> raise e w
            | Inr model \<Rightarrow>
                (case filter_model model of
                   Inl e \<Rightarrow> raise e w
                 | Inr data \<Rightarrow>
                     (case py_get data ''relationships'' JNull of
                        Inl e \<Rightarrow> raise e w
                      | Inr relationships \<Rightarrow>
                          and_then
                            (if \<not> truthy relationships then
                               print ''Warning: No relationships found in the model. The output will be empty.''
                             else Pair (Inr ()))
                            (\<lambda>u. Pair (Inr data)) w))))"

text \<open>
  The body of the \<^verbatim>\<open>try\<close> in \<^verbatim>\<open>call_openai_llm_for_json\<close>, lines 139 to 149:
  the call, a printed line, and the parsing of the answer.
\<close>

definition ask_llm :: "python \<Rightarrow> json \<Rightarrow> json step" where
  "ask_llm py connections_data w0 =
     (let w = w0\<lparr>llm_calls := llm_calls w0 @ [connections_data]\<rparr> in
      case llm w connections_data of
        Inl e \<Rightarrow> raise e w
      | Inr response_content \<Rightarrow>
          and_then (print ''JSON response received from LLM.'') (\<lambda>u w1.
            case response_content of
              None \<Rightarrow>
                raise (TypeError ''the JSON object must be str, bytes or bytearray, not NoneType'') w1
            | Some text \<Rightarrow>
                (case json_loads py text of
                   Inl e \<Rightarrow> raise e w1
                 | Inr v \<Rightarrow> (Inr v, w1))) w)"

text \<open>
  \<^verbatim>\<open>call_openai_llm_for_json\<close>: whatever the body raises is printed and raised
  again (\<^verbatim>\<open>except Exception as e\<close>).
\<close>

definition call_openai_llm_for_json :: "python \<Rightarrow> json \<Rightarrow> json step" where
  "call_openai_llm_for_json py connections_data =
     and_then (print (''Step 3: Sending request to OpenAI LLM ('' @ OPENAI_MODEL @
                      '') for firewall rule generation...'')) (\<lambda>u w.
       case client w of
         None \<Rightarrow> raise (ValueError ''OpenAI client is not configured. Run configure_llm() first.'') w
       | Some k \<Rightarrow>
           (case ask_llm py connections_data w of
              (Inl e, w1) \<Rightarrow>
                and_then (print_error ''An error occurred while calling the OpenAI API: '' e)
                  (\<lambda>u. raise e) w1
            | (Inr v, w1) \<Rightarrow> (Inr v, w1)))"

text \<open>One row of the table, line 165: the four cells in the order of the header.\<close>

definition table_row :: "python \<Rightarrow> json \<Rightarrow> py_error + string" where
  "table_row py rule =
     (case py_get rule ''source'' (JStr ''N/A'') of Inl e \<Rightarrow> Inl e | Inr src \<Rightarrow>
     (case py_get rule ''port'' (JStr ''N/A'') of Inl e \<Rightarrow> Inl e | Inr port \<Rightarrow>
     (case py_get rule ''destination'' (JStr ''N/A'') of Inl e \<Rightarrow> Inl e | Inr dest \<Rightarrow>
     (case py_get rule ''description'' (JStr ''N/A'') of Inl e \<Rightarrow> Inl e | Inr desc \<Rightarrow>
        Inr (''| '' @ format_value py src @ '' | '' @ format_value py port @ '' | ''
             @ format_value py dest @ '' | '' @ format_value py desc @ '' |'')))))"

text \<open>The list comprehension of lines 164 to 167; it stops at the first rule that raises.\<close>

fun table_rows :: "python \<Rightarrow> json list \<Rightarrow> py_error + string list" where
  "table_rows py [] = Inr []"
| "table_rows py (rule # rules) =
     (case table_row py rule of Inl e \<Rightarrow> Inl e | Inr row \<Rightarrow>
     (case table_rows py rules of Inl e \<Rightarrow> Inl e | Inr rows \<Rightarrow> Inr (row # rows)))"

definition table_header :: string where
  "table_header = ''| Source | Port | Destination | Description |\<newline>''"

definition table_separator :: string where
  "table_separator = ''|--------|------|-------------|-------------|\<newline>''"

definition format_json_to_markdown :: "python \<Rightarrow> json \<Rightarrow> string step" where
  "format_json_to_markdown py rules_json =
     and_then (print ''Step 4: Formatting JSON data into a Markdown table...'') (\<lambda>u w.
       case py_get rules_json ''rules'' (JArr []) of
         Inl e \<Rightarrow> raise e w
       | Inr rules \<Rightarrow>
           if \<not> truthy rules then (Inr ''No rules were generated by the LLM.'', w)
           else
             (case py_iter rules of
                Inl e \<Rightarrow> raise e w
              | Inr rule_list \<Rightarrow>
                  (case table_rows py rule_list of
                     Inl e \<Rightarrow> raise e w
                   | Inr rows \<Rightarrow>
                       (Inr (table_header @ table_separator @ join ''\<newline>'' rows @ ''\<newline>''), w))))"

text \<open>
  \<^verbatim>\<open>save_table\<close>: the \<^verbatim>\<open>try\<close> holds the writing and the line printed after it;
  an \<^verbatim>\<open>IOError\<close> (that is, an \<^verbatim>\<open>OSError\<close>) is printed and raised again, any other
  exception passes through.
\<close>

definition save_table :: "string \<Rightarrow> unit step" where
  "save_table markdown_table =
     and_then (print (''Step 5: Saving table to '' @ TABLE_OUTPUT_PATH @ ''...'')) (\<lambda>u w.
       case and_then (write_file TABLE_OUTPUT_PATH markdown_table)
              (\<lambda>u. print ''Table saved successfully!'') w of
         (Inl e, w1) \<Rightarrow>
           (case e of
              OSError msg \<Rightarrow>
                and_then (print_error ''Error saving table file: '' e) (\<lambda>u. raise e) w1
            | _ \<Rightarrow> (Inl e, w1))
       | (Inr u, w1) \<Rightarrow> (Inr (), w1))"

definition no_relationships_text :: string where
  "no_relationships_text =
     ''No rules could be generated because the C4 model does not contain any relationships.''"

text \<open>The body of the \<^verbatim>\<open>try\<close> in \<^verbatim>\<open>main\<close>, lines 185 to 200.\<close>

definition main_try :: "python \<Rightarrow> unit step" where
  "main_try py =
     and_then configure_llm (\<lambda>u.
     and_then export_model_to_json (\<lambda>u.
     and_then (get_structured_model_data py) (\<lambda>connections_data w.
       case py_get connections_data ''relationships'' JNull of
         Inl e \<Rightarrow> raise e w
       | Inr relationships \<Rightarrow>
           if \<not> truthy relationships then
             and_then (print ''Execution stopped because no relationships were found in the model.'')
               (\<lambda>u. save_table no_relationships_text) w
           else
             and_then (call_openai_llm_for_json py connections_data) (\<lambda>rules_as_json.
             and_then (format_json_to_markdown py rules_as_json) (\<lambda>markdown_table.
             and_then (save_table markdown_table) (\<lambda>u.
             and_then (print ''\<newline>--- Generated Table ---'') (\<lambda>u.
             and_then (print markdown_table) (\<lambda>u.
               print (''--- End of Table --- (Saved to '' @ TABLE_OUTPUT_PATH @ '')'')))))) w)))"

text \<open>
  \<^verbatim>\<open>main\<close>: the \<^verbatim>\<open>try\<close> with its \<^verbatim>\<open>except Exception as e\<close> handler. The handler
  prints, and that \<^verbatim>\<open>print\<close> is outside any \<^verbatim>\<open>try\<close>: when it raises, the
  exception leaves \<^verbatim>\<open>main\<close>.
\<close>

definition main :: "python \<Rightarrow> unit step" where
  "main py w =
     (case main_try py w of
        (Inl e, w1) \<Rightarrow> print_error ''\<newline>An error occurred: '' e w1
      | (Inr u, w1) \<Rightarrow> (Inr (), w1))"

section \<open>The live path (mcp\_client.py)\<close>

text \<open>
  Keys of a Python dict are compared with \<^verbatim>\<open>==\<close>, under which \<^verbatim>\<open>True\<close>, \<^verbatim>\<open>1\<close> and
  \<^verbatim>\<open>1.0\<close> are one key. \<^verbatim>\<open>d[k] = v\<close> replaces the value of an equal key where it
  stands, or adds the item at the end.
\<close>

fun num_value :: "json \<Rightarrow> rat option" where
  "num_value (JBool b) = Some (if b then 1 else 0)"
| "num_value (JInt n) = Some (of_int n)"
| "num_value (JFloat r) = Some r"
| "num_value v = None"

definition py_eq :: "json \<Rightarrow> json \<Rightarrow> bool" where
  "py_eq a b =
     (case (num_value a, num_value b) of
        (Some x, Some y) \<Rightarrow> x = y
      | (None, None) \<Rightarrow> a = b
      | _ \<Rightarrow> False)"

fun dict_set :: "(json \<times> json) list \<Rightarrow> json \<Rightarrow> json \<Rightarrow> (json \<times> json) list" where
  "dict_set [] k v = [(k, v)]"
| "dict_set ((k', v') # rest) k v =
     (if py_eq k' k then (k', v) # rest else (k', v') # dict_set rest k v)"

text \<open>
  The dict \<^verbatim>\<open>{"elements": elements, "relationships": relationships}\<close> that
  \<^verbatim>\<open>parse_c4_view\<close> returns; the keys of \<^verbatim>\<open>elements\<close> are the node ids as found.
\<close>

record view_graph =
  g_elements :: "(json \<times> json) list"
  g_relationships :: "json list"

text \<open>The loop over \<^verbatim>\<open>view_json.get("nodes", [])\<close>, lines 50 to 60.\<close>

fun nodes_loop :: "json list \<Rightarrow> (json \<times> json) list \<Rightarrow> py_error + (json \<times> json) list" where
  "nodes_loop [] elements = Inr elements"
| "nodes_loop (node # rest) elements =
     (case py_get node ''id'' JNull of Inl e \<Rightarrow> Inl e | Inr elem_id \<Rightarrow>
     (case py_get node ''title'' JNull of Inl e \<Rightarrow> Inl e | Inr title \<Rightarrow>
     (case py_get node ''represents'' (JObj []) of Inl e \<Rightarrow> Inl e | Inr rep \<Rightarrow>
     (case py_get rep ''element'' JNull of Inl e \<Rightarrow> Inl e | Inr represents \<Rightarrow>
        if truthy elem_id \<and> truthy represents then
          if \<not> hashable elem_id then Inl (TypeError (unhashable_type elem_id))
          else
            nodes_loop rest
              (dict_set elements elem_id
                 (JObj [(''id'', elem_id), (''title'', title),
                        (''kind'', JStr ''unknown''), (''description'', JStr [])]))
        else nodes_loop rest elements))))"

text \<open>
  \<^verbatim>\<open>parse_c4_view\<close>. Its \<^verbatim>\<open>except\<close> names \<^verbatim>\<open>json.JSONDecodeError\<close> only: any
  other exception of \<^verbatim>\<open>json.loads\<close> leaves the function.
\<close>

definition parse_c4_view :: "python \<Rightarrow> string \<Rightarrow> view_graph step" where
  "parse_c4_view py text w0 =
     (let w = logging INFO ''Parsing view content...'' w0 in
      case json_loads py text of
        Inl e \<Rightarrow>
          (case e of
             JSONDecodeError msg \<Rightarrow>
               (Inr \<lparr>g_elements = [], g_relationships = []\<rparr>,
                logging ERROR ''Failed to parse view content as JSON.'' w)
           | _ \<Rightarrow> (Inl e, w))
      | Inr view_json \<Rightarrow>
          (case py_get view_json ''nodes'' (JArr []) of Inl e \<Rightarrow> (Inl e, w) | Inr nodes \<Rightarrow>
          (case py_iter nodes of Inl e \<Rightarrow> (Inl e, w) | Inr node_list \<Rightarrow>
          (case nodes_loop node_list [] of Inl e \<Rightarrow> (Inl e, w) | Inr elements \<Rightarrow>
             (Inr \<lparr>g_elements = elements, g_relationships = []\<rparr>,
              logging INFO (''Parsed '' @ show_nat (length elements) @ '' elements.'') w)))))"

definition FIREWALL_JSON_PATH :: string where
  "FIREWALL_JSON_PATH = ''dist/firewall_rules.json''"

definition FIREWALL_MD_PATH :: string where
  "FIREWALL_MD_PATH = ''dist/FirewallRules.md''"

text \<open>One line of the table, lines 78 to 82.\<close>

definition md_line :: "python \<Rightarrow> json \<Rightarrow> py_error + string" where
  "md_line py rule =
     (case py_get rule ''source'' (JStr []) of Inl e \<Rightarrow> Inl e | Inr src \<Rightarrow>
     (case py_get rule ''target'' (JStr []) of Inl e \<Rightarrow> Inl e | Inr dest \<Rightarrow>
     (case py_get rule ''purpose'' (JStr []) of Inl e \<Rightarrow> Inl e | Inr desc \<Rightarrow>
     (case py_get rule ''protocol'' (JStr []) of Inl e \<Rightarrow> Inl e | Inr protocol \<Rightarrow>
     (case py_get rule ''port'' (JStr []) of Inl e \<Rightarrow> Inl e | Inr port_value \<Rightarrow>
        (let port = strip (format_value py protocol @ '' '' @ format_value py port_value)
         in Inr (''| '' @ format_value py src @ '' | '' @ port @ '' | ''
                 @ format_value py dest @ '' | '' @ format_value py desc @ '' |'')))))))"

text \<open>The loop of lines 77 to 82, appending to \<^verbatim>\<open>md_lines\<close>.\<close>

fun md_loop :: "python \<Rightarrow> json list \<Rightarrow> string list \<Rightarrow> py_error + string list" where
  "md_loop py [] md_lines = Inr md_lines"
| "md_loop py (rule # rest) md_lines =
     (case md_line py rule of Inl e \<Rightarrow> Inl e | Inr line \<Rightarrow> md_loop py rest (md_lines @ [line]))"

definition md_header :: "string list" where
  "md_header =
     [''| Source | Port | Destination | Description |'',
      ''|--------|------|-------------|-------------|'']"

definition save_firewall_outputs :: "python \<Rightarrow> json \<Rightarrow> unit step" where
  "save_firewall_outputs py firewall_rules w =
     (case write_file FIREWALL_JSON_PATH
             (json_dump py (JObj [(''firewall_rules'', firewall_rules)])) w of
        (Inl e, w1) \<Rightarrow> (Inl e, w1)
      | (Inr u, w1) \<Rightarrow>
          (let w2 = logging INFO (''Saved firewall rules to '' @ FIREWALL_JSON_PATH) w1 in
           case py_iter firewall_rules of Inl e \<Rightarrow> (Inl e, w2) | Inr rules \<Rightarrow>
           (case md_loop py rules md_header of Inl e \<Rightarrow> (Inl e, w2) | Inr md_lines \<Rightarrow>
           (case write_file FIREWALL_MD_PATH (join ''\<newline>'' md_lines) w2 of
              (Inl e, w3) \<Rightarrow> (Inl e, w3)
            | (Inr u, w3) \<Rightarrow>
                (Inr (), logging INFO (''Saved firewall rules to '' @ FIREWALL_MD_PATH) w3)))))"

section \<open>The JSON text that \<^verbatim>\<open>json.load\<close> reads\<close>

























section \<open>Reading graphs, documents and tables\<close>

text \<open>
  The statements below look into the values the scripts build. \<open>field\<close> reads a key
  of a dict (\<^verbatim>\<open>None\<close> when there is nothing to read), \<open>dict_items\<close> and
  \<open>list_items\<close> give the items of a dict and of a list.
\<close>

definition field :: "json \<Rightarrow> string \<Rightarrow> json" where
  "field v k =
     (case v of
        JObj kvs \<Rightarrow> (case map_of kvs k of Some x \<Rightarrow> x | None \<Rightarrow> JNull)
      | _ \<Rightarrow> JNull)"

definition dict_items :: "json \<Rightarrow> (string \<times> json) list" where
  "dict_items v = (case v of JObj kvs \<Rightarrow> kvs | _ \<Rightarrow> [])"

definition list_items :: "json \<Rightarrow> json list" where
  "list_items v = (case v of JArr xs \<Rightarrow> xs | _ \<Rightarrow> [])"

text \<open>The keys of the \<^verbatim>\<open>elements\<close> mapping of a model document or of a filtered graph.\<close>

definition element_keys :: "json \<Rightarrow> string set" where
  "element_keys g = fst ` set (dict_items (field g ''elements''))"

text \<open>The relationship list of a filtered graph, and the ids its relationships name.\<close>

definition graph_relationships :: "json \<Rightarrow> json list" where
  "graph_relationships g = list_items (field g ''relationships'')"

definition rel_ids :: "json list \<Rightarrow> json list" where
  "rel_ids rs = concat (map (\<lambda>r. [field r ''source'', field r ''target'']) rs)"

definition endpoints :: "json \<Rightarrow> json set" where
  "endpoints g = set (rel_ids (graph_relationships g))"

text \<open>
  A relation entry of the model document is kept when both of its endpoint ids are
  there and true in Python's sense (not \<^verbatim>\<open>None\<close>, not empty, not zero); \<open>normalized\<close>
  is the relationship it becomes.
\<close>

definition kept :: "json \<Rightarrow> bool" where
  "kept details =
     (case (endpoint_id details ''source'', endpoint_id details ''target'') of
        (Inr s, Inr t) \<Rightarrow> truthy s \<and> truthy t
      | _ \<Rightarrow> False)"

definition normalized :: "json \<Rightarrow> json" where
  "normalized details =
     relationship (field (field details ''source'') ''model'')
                  (field (field details ''target'') ''model'')
                  (case details of
                     JObj kvs \<Rightarrow>
                       (case map_of kvs ''title'' of Some t \<Rightarrow> t | None \<Rightarrow> JStr ''No description'')
                   | _ \<Rightarrow> JNull)"

text \<open>A relationship as the loop appends it: both ids true and hashable.\<close>

definition kept_rel :: "json \<Rightarrow> bool" where
  "kept_rel r =
     (\<exists>s t d. r = relationship s t d \<and> truthy s \<and> truthy t \<and> hashable s \<and> hashable t)"

text \<open>
  A filtered graph written back in the shape of a model document: its elements as
  they are, and each relationship as a relation entry
  \<^verbatim>\<open>{source: {model: s}, target: {model: t}, title: d}\<close> under the given relation ids.
\<close>

definition encode_relation :: "json \<Rightarrow> json" where
  "encode_relation r =
     JObj [(''source'', JObj [(''model'', field r ''source'')]),
           (''target'', JObj [(''model'', field r ''target'')]),
           (''title'', field r ''description'')]"

definition as_model_document :: "string list \<Rightarrow> json \<Rightarrow> json" where
  "as_model_document rel_keys g =
     JObj [(''elements'', field g ''elements''),
           (''relations'', JObj (zip rel_keys (map encode_relation (graph_relationships g))))]"

definition empty_graph :: json where
  "empty_graph = JObj [(''elements'', JObj []), (''relationships'', JArr [])]"


text \<open>
  A cell of a table: the field of the rule as an f-string prints it, or the
  placeholder when the rule has no such field. A table line holds four cells in the
  order Source, Port, Destination, Description.
\<close>

definition cell :: "python \<Rightarrow> (string \<times> json) list \<Rightarrow> string \<Rightarrow> string \<Rightarrow> string" where
  "cell py rule key placeholder =
     (case map_of rule key of None \<Rightarrow> placeholder | Some v \<Rightarrow> format_value py v)"

definition table_line :: "string \<Rightarrow> string \<Rightarrow> string \<Rightarrow> string \<Rightarrow> string" where
  "table_line source port destination description =
     ''| '' @ source @ '' | '' @ port @ '' | '' @ destination @ '' | '' @ description @ '' |''"

definition static_row :: "python \<Rightarrow> (string \<times> json) list \<Rightarrow> string" where
  "static_row py rule =
     table_line (cell py rule ''source'' ''N/A'') (cell py rule ''port'' ''N/A'')
                (cell py rule ''destination'' ''N/A'') (cell py rule ''description'' ''N/A'')"

definition live_row :: "python \<Rightarrow> (string \<times> json) list \<Rightarrow> string" where
  "live_row py rule =
     table_line (cell py rule ''source'' [])
                (strip (cell py rule ''protocol'' [] @ '' '' @ cell py rule ''port'' []))
                (cell py rule ''target'' []) (cell py rule ''purpose'' [])"

definition no_rules_text :: string where
  "no_rules_text = ''No rules were generated by the LLM.''"



section \<open>Example inputs\<close>

text \<open>
  A model with elements \<open>a\<close>, \<open>b\<close>, \<open>c\<close> and one relation from \<open>a\<close> to \<open>b\<close> without
  a title, and the graph the filter makes of it.
\<close>

definition ex_model :: json where
  "ex_model =
     JObj [(''elements'',
              JObj [(''a'', JObj [(''title'', JStr ''A''),
                                  (''description'', JStr ''Network ID: 10.0.0.1'')]),
                    (''b'', JObj [(''title'', JStr ''B''), (''kind'', JStr ''container'')]),
                    (''c'', JObj [(''title'', JStr ''C'')])]),
           (''relations'',
              JObj [(''r1'', JObj [(''source'', JObj [(''model'', JStr ''a'')]),
                                   (''target'', JObj [(''model'', JStr ''b'')])])])]"

definition ex_graph :: json where
  "ex_graph =
     JObj [(''elements'',
              JObj [(''a'', JObj [(''title'', JStr ''A''), (''kind'', JNull),
                                  (''description'', JStr ''Network ID: 10.0.0.1''),
                                  (''technology'', JNull)]),
                    (''b'', JObj [(''title'', JStr ''B''), (''kind'', JStr ''container''),
                                  (''description'', JNull), (''technology'', JNull)])]),
           (''relationships'',
              JArr [JObj [(''source'', JStr ''a''), (''target'', JStr ''b''),
                          (''description'', JStr ''No description'')]])]"

text \<open>A model whose only relation points at an element that is not in the model.\<close>

definition dangling_model :: json where
  "dangling_model =
     JObj [(''elements'', JObj [(''a'', JObj [(''title'', JStr ''A'')])]),
           (''relations'',
              JObj [(''r1'', JObj [(''source'', JObj [(''model'', JStr ''a'')]),
                                   (''target'', JObj [(''model'', JStr ''ghost'')]),
                                   (''title'', JStr ''calls (TCP 8443)'')])])]"

definition dangling_graph :: json where
  "dangling_graph =
     JObj [(''elements'',
              JObj [(''a'', JObj [(''title'', JStr ''A''), (''kind'', JNull),
                                  (''description'', JNull), (''technology'', JNull)])]),
           (''relationships'',
              JArr [JObj [(''source'', JStr ''a''), (''target'', JStr ''ghost''),
                          (''description'', JStr ''calls (TCP 8443)'')]])]"

text \<open>Texts of model files, of a view, and of a rule document, with what they parse to.\<close>

definition empty_model_text :: string where
  \<open>empty_model_text = ''{"elements": {"a": {"title": "A"}}, "relations": {}}''\<close>

definition empty_model :: json where
  "empty_model =
     JObj [(''elements'', JObj [(''a'', JObj [(''title'', JStr ''A'')])]),
           (''relations'', JObj [])]"

definition small_model_text :: string where
  \<open>small_model_text =
     ''{"elements": {"a": {}, "b": {}}, "relations": {"r": {"source": {"model": "a"}, "target": {"model": "b"}}}}''\<close>

definition small_model :: json where
  "small_model =
     JObj [(''elements'', JObj [(''a'', JObj []), (''b'', JObj [])]),
           (''relations'',
              JObj [(''r'', JObj [(''source'', JObj [(''model'', JStr ''a'')]),
                                  (''target'', JObj [(''model'', JStr ''b'')])])])]"

definition small_graph :: json where
  "small_graph =
     JObj [(''elements'',
              JObj [(''a'', JObj [(''title'', JNull), (''kind'', JNull),
                                  (''description'', JNull), (''technology'', JNull)]),
                    (''b'', JObj [(''title'', JNull), (''kind'', JNull),
                                  (''description'', JNull), (''technology'', JNull)])]),
           (''relationships'',
              JArr [JObj [(''source'', JStr ''a''), (''target'', JStr ''b''),
                          (''description'', JStr ''No description'')]])]"

definition view_text :: string where
  \<open>view_text =
     ''{"nodes": [{"id": "web", "title": "Web", "represents": {"element": "cloud.web"}}, {"id": "note"}]}''\<close>

definition view_document :: json where
  "view_document =
     JObj [(''nodes'',
              JArr [JObj [(''id'', JStr ''web''), (''title'', JStr ''Web''),
                          (''represents'', JObj [(''element'', JStr ''cloud.web'')])],
                    JObj [(''id'', JStr ''note'')]])]"

definition protocol_only_rule :: "(string \<times> json) list" where
  "protocol_only_rule =
     [(''source'', JStr ''web''), (''target'', JStr ''db''),
      (''protocol'', JStr ''TCP''), (''purpose'', JStr ''reads'')]"


definition rules_text :: string where
  \<open>rules_text =
     ''{\<newline>  "firewall_rules": [\<newline>    {\<newline>      "source": "web",\<newline>      "target": "db",\<newline>      "protocol": "TCP",\<newline>      "purpose": "reads"\<newline>    }\<newline>  ]\<newline>}''\<close>


text \<open>A text of 4301 digits: more than Python converts to an integer.\<close>

definition long_number_text :: string where
  "long_number_text = replicate 4301 CHR ''1''"

text \<open>
  The parser on the texts above. A text of more than 4300 digits \<open>1\<close> is a JSON
  number that Python refuses to convert, with \<^verbatim>\<open>ValueError\<close>; every other text is
  not JSON to this parser.
\<close>

definition ex_python :: python where
  "ex_python =
     \<lparr>json_loads =
        (\<lambda>s. if 4300 < length s \<and> set s = {CHR ''1''} then
                Inl (ValueError (''Exceeds the limit (4300 digits) for integer string conversion: value has ''
                       @ show_nat (length s)
                       @ '' digits; use sys.set_int_max_str_digits() to increase the limit''))
              else if s = ''{}'' then Inr (JObj [])
              else if s = ''[]'' then Inr (JArr [])
              else if s = empty_model_text then Inr empty_model
              else if s = small_model_text then Inr small_model
              else if s = view_text then Inr view_document
              else Inl (JSONDecodeError ''Expecting value: line 1 column 1 (char 0)'')),
      py_repr = (\<lambda>v. []), py_float = (\<lambda>s. None), recursion_limit = 1000\<rparr>"

text \<open>
  A run in the project root, with an API key, where the export writes the given model
  text and the inference service answers \<^verbatim>\<open>{}\<close>.
\<close>

definition ex_world :: "string \<Rightarrow> world" where
  "ex_world model_text =
     \<lparr>api_key = Some ''sk-test'', client = None,
      files = [''package.json'' \<mapsto> ''{}''],
      write_errors = Map.empty, mkdir_error = None,
      npm = \<lparr>returncode = 0, npm_stdout = [], npm_stderr = [], exported = Some model_text\<rparr>,
      llm = (\<lambda>data. Inr (Some ''{}'')), llm_calls = [], stdout = [],
      stdout_error = None, log = []\<rparr>"








text \<open>Two rules for the tables: one with a source only, one with every field.\<close>

definition source_only_rule :: "(string \<times> json) list" where
  "source_only_rule = [(''source'', JStr ''web'')]"

definition full_rule :: "(string \<times> json) list" where
  "full_rule =
     [(''source'', JStr ''api''), (''destination'', JStr ''db''), (''port'', JStr ''5432''),
      (''description'', JStr ''reads''), (''target'', JStr ''db''), (''protocol'', JStr ''TCP''),
      (''purpose'', JStr ''reads'')]"

section \<open>Facts about the subgraph filter\<close>

lemmas filter_eval = filter_model_def endpoint_id_def element_entry_def relationship_def

lemmas observe_eval = field_def dict_items_def list_items_def element_keys_def
  graph_relationships_def rel_ids_def endpoints_def

lemma py_items_Inr: "py_items v = Inr kvs \<longleftrightarrow> v = JObj kvs"
  by (cases v) auto

lemma endpoint_id_field:
  "endpoint_id d k = Inr v \<Longrightarrow> truthy v \<Longrightarrow> field (field d k) ''model'' = v"
  apply (cases d; simp add: endpoint_id_def field_def split: option.splits sum.splits)
   apply (auto split: json.splits option.splits)
  done

text \<open>
  What the loop over the relations returns when it returns: the kept entries, in
  order, normalized, and their ids in the same order.
\<close>

lemma relations_loop_result:
  "relations_loop xs ids rels = Inr (ids', rels') \<Longrightarrow>
     rels' = rels @ map normalized (filter kept (map snd xs)) \<and>
     ids' = ids @ rel_ids (map normalized (filter kept (map snd xs)))"
proof (induction xs arbitrary: ids rels)
  case Nil
  then show ?case by (simp add: rel_ids_def)
next
  case (Cons x xs)
  obtain rid d where x: "x = (rid, d)" by (cases x)
  show ?case
  proof (cases "kept d")
    case True
    then obtain s t where st:
      "endpoint_id d ''source'' = Inr s" "endpoint_id d ''target'' = Inr t" "truthy s" "truthy t"
      by (auto simp: kept_def split: sum.splits)
    from st(1) obtain kvs where d: "d = JObj kvs"
      by (cases d) (auto simp: endpoint_id_def)
    have n: "normalized d =
        relationship s t (case map_of kvs ''title'' of Some t \<Rightarrow> t | None \<Rightarrow> JStr ''No description'')"
      using st by (simp add: normalized_def endpoint_id_field d)
    have f: "field (relationship s t z) ''source'' = s" "field (relationship s t z) ''target'' = t" for z
      by (simp_all add: relationship_def field_def)
    from Cons.prems st have
      "relations_loop xs (ids @ [s, t]) (rels @ [normalized d]) = Inr (ids', rels')"
      unfolding x n by (simp add: d split: if_splits option.splits)
    from Cons.IH[OF this] show ?thesis
      using True by (simp add: x rel_ids_def n f)
  next
    case False
    with Cons.prems have "relations_loop xs ids rels = Inr (ids', rels')"
      unfolding x by (auto simp: kept_def split: sum.splits if_splits)
    from Cons.IH[OF this] show ?thesis using False by (simp add: x)
  qed
qed

lemma relations_loop_kept_rel:
  "relations_loop xs ids rels = Inr (ids', rels') \<Longrightarrow> list_all kept_rel rels
     \<Longrightarrow> list_all kept_rel rels'"
proof (induction xs arbitrary: ids rels)
  case Nil
  then show ?case by simp
next
  case (Cons x xs)
  obtain rid d where x: "x = (rid, d)" by (cases x)
  from Cons.prems(1) consider
    (keep) s t d' where
      "relations_loop xs (ids @ [s, t]) (rels @ [relationship s t d']) = Inr (ids', rels')"
      "truthy s" "truthy t" "hashable s" "hashable t"
    | (skip) "relations_loop xs ids rels = Inr (ids', rels')"
    unfolding x by (auto split: sum.splits if_splits)
  then show ?case
  proof cases
    case keep
    have "list_all kept_rel (rels @ [relationship s t d'])"
    proof -
      have "kept_rel (relationship s t d')"
        unfolding kept_rel_def using keep(2-5) by blast
      with Cons.prems(2) show ?thesis by simp
    qed
    from Cons.IH[OF keep(1) this] show ?thesis .
  next
    case skip
    from Cons.IH[OF skip Cons.prems(2)] show ?thesis .
  qed
qed

text \<open>Walking the re-encoded relationships gives the relationships back.\<close>

lemma relations_loop_encoded:
  "list_all kept_rel rs \<Longrightarrow> length ks = length rs \<Longrightarrow>
   relations_loop (zip ks (map encode_relation rs)) ids rels = Inr (ids @ rel_ids rs, rels @ rs)"
proof (induction rs arbitrary: ks ids rels)
  case Nil
  then show ?case by (simp add: rel_ids_def)
next
  case (Cons r rs)
  then obtain k ks' where ks: "ks = k # ks'" by (cases ks) auto
  from Cons.prems obtain s t d where
    r: "r = relationship s t d" "truthy s" "truthy t" "hashable s" "hashable t"
    by (auto simp: kept_rel_def)
  have e: "encode_relation r =
      JObj [(''source'', JObj [(''model'', s)]), (''target'', JObj [(''model'', t)]), (''title'', d)]"
    by (simp add: encode_relation_def r(1) relationship_def field_def)
  have ih: "relations_loop (zip ks' (map encode_relation rs)) (ids @ [s, t]) (rels @ [r]) =
      Inr ((ids @ [s, t]) @ rel_ids rs, (rels @ [r]) @ rs)"
    using Cons.prems by (intro Cons.IH) (simp_all add: ks)
  have ri: "rel_ids (r # rs) = [s, t] @ rel_ids rs"
    by (simp add: rel_ids_def r(1) relationship_def field_def)
  show ?case
    using ih r(2-5) by (simp add: ks e endpoint_id_def ri) (simp add: r(1))
qed

lemma filtered_elements_keys:
  "filtered_elements ids es = Inr out \<Longrightarrow>
     map fst out = filter (\<lambda>k. JStr k \<in> set ids) (map fst es)"
  by (induction es arbitrary: out) (auto split: sum.splits if_splits)

lemma element_entry_again: "element_entry d = Inr e \<Longrightarrow> element_entry e = Inr e"
  by (cases d) (auto simp: element_entry_def)

lemma filtered_elements_again:
  "filtered_elements ids es = Inr out \<Longrightarrow> filtered_elements ids out = Inr out"
  by (induction es arbitrary: out) (auto split: sum.splits if_splits simp: element_entry_again)

lemma filtered_elements_no_ids: "filtered_elements [] es = Inr []"
  by (induction es) auto

text \<open>The parts of a run of the filter that returns.\<close>

lemma filter_model_shape:
  assumes "filter_model model = Inr g"
  shows "\<exists>elems rels ids es xs.
    g = JObj [(''elements'', JObj elems), (''relationships'', JArr rels)] \<and>
    py_get model ''elements'' (JObj []) = Inr (JObj es) \<and>
    py_get model ''relations'' (JObj []) = Inr (JObj xs) \<and>
    relations_loop xs [] [] = Inr (ids, rels) \<and>
    filtered_elements ids es = Inr elems"
  using assms unfolding filter_model_def
  by (auto split: sum.splits prod.splits simp: py_items_Inr)

lemma filter_model_relationships:
  assumes "filter_model model = Inr g"
  shows "graph_relationships g =
     map normalized (filter kept (map snd (dict_items (field model ''relations''))))"
proof -
  from filter_model_shape[OF assms] obtain elems rels ids xs where
    g: "g = JObj [(''elements'', JObj elems), (''relationships'', JArr rels)]"
    and xs: "py_get model ''relations'' (JObj []) = Inr (JObj xs)"
    and loop: "relations_loop xs [] [] = Inr (ids, rels)" by blast
  have rels: "graph_relationships g = rels"
    by (simp add: g graph_relationships_def field_def list_items_def)
  have items: "dict_items (field model ''relations'') = xs"
    using xs by (cases model) (auto simp: field_def dict_items_def split: option.splits)
  from relations_loop_result[OF loop] show ?thesis
    unfolding rels items by simp
qed

lemma filter_model_keys:
  assumes "filter_model model = Inr g"
  shows "JStr ` element_keys g = endpoints g \<inter> JStr ` element_keys model"
proof -
  from filter_model_shape[OF assms] obtain elems rels ids es xs where
    g: "g = JObj [(''elements'', JObj elems), (''relationships'', JArr rels)]"
    and es: "py_get model ''elements'' (JObj []) = Inr (JObj es)"
    and loop: "relations_loop xs [] [] = Inr (ids, rels)"
    and fe: "filtered_elements ids es = Inr elems" by blast
  have rels: "graph_relationships g = rels"
    by (simp add: g graph_relationships_def field_def list_items_def)
  have keys_g: "element_keys g = set (map fst elems)"
    by (simp add: g element_keys_def field_def dict_items_def)
  have keys_m: "element_keys model = set (map fst es)"
    using es
    by (cases model) (auto simp: element_keys_def field_def dict_items_def split: option.splits)
  from relations_loop_result[OF loop] have ids: "ids = rel_ids rels" by simp
  have ep: "endpoints g = set ids"
    by (simp add: endpoints_def rels ids)
  show ?thesis
    unfolding keys_g keys_m ep filtered_elements_keys[OF fe] by auto
qed

lemma filter_again_empty:
  assumes "filter_model model = Inr g"
  shows "filter_model g = Inr empty_graph"
proof -
  from filter_model_shape[OF assms] obtain elems rels where
    g: "g = JObj [(''elements'', JObj elems), (''relationships'', JArr rels)]" by blast
  show ?thesis
    by (simp add: g filter_model_def filtered_elements_no_ids empty_graph_def)
qed

lemma filter_reencoded:
  assumes "filter_model model = Inr g" and "length ks = length (graph_relationships g)"
  shows "filter_model (as_model_document ks g) = Inr g"
proof -
  from filter_model_shape[OF assms(1)] obtain elems rels ids es xs where
    g: "g = JObj [(''elements'', JObj elems), (''relationships'', JArr rels)]"
    and loop: "relations_loop xs [] [] = Inr (ids, rels)"
    and fe: "filtered_elements ids es = Inr elems" by blast
  have rels: "graph_relationships g = rels"
    by (simp add: g graph_relationships_def field_def list_items_def)
  from relations_loop_result[OF loop] have ids: "ids = rel_ids rels" by simp
  from relations_loop_kept_rel[OF loop] have wf: "list_all kept_rel rels" by simp
  have doc: "as_model_document ks g =
    JObj [(''elements'', JObj elems), (''relations'', JObj (zip ks (map encode_relation rels)))]"
    by (simp add: as_model_document_def rels) (simp add: g field_def)
  have l: "relations_loop (zip ks (map encode_relation rels)) [] [] = Inr (ids, rels)"
    using relations_loop_encoded[OF wf, of ks "[]" "[]"] assms(2) by (simp add: rels ids)
  show ?thesis
    by (simp add: doc filter_model_def l filtered_elements_again[OF fe]) (simp add: g)
qed

lemma filter_ex_model: "filter_model ex_model = Inr ex_graph"
  by (simp add: ex_model_def ex_graph_def filter_eval)

lemma filter_dangling_model: "filter_model dangling_model = Inr dangling_graph"
  by (simp add: dangling_model_def dangling_graph_def filter_eval)

subsection \<open>Which elements and relationships the filter keeps\<close>

text \<open>
  Claim C2, as the code has it. When the filter returns a graph for a model document,
  the element keys of the graph are the endpoint ids of its relationships that are
  keys of the document's \<open>elements\<close> mapping; its relationships are the relation
  entries whose source and target ids are both present and not empty, normalized and
  in order, whether or not those ids are elements of the document. So when every
  endpoint of the kept relationships is an element of the document, the element keys
  are exactly the endpoints and no relationship names an element outside the graph.
\<close>

theorem filtered_graph_keys_and_relationships:
  assumes "filter_model model = Inr g"
  shows "JStr ` element_keys g = endpoints g \<inter> JStr ` element_keys model
     \<and> graph_relationships g =
         map normalized (filter kept (map snd (dict_items (field model ''relations''))))
     \<and> (endpoints g \<subseteq> JStr ` element_keys model \<longrightarrow>
          JStr ` element_keys g = endpoints g
          \<and> (\<forall>r \<in> set (graph_relationships g).
                field r ''source'' \<in> JStr ` element_keys g \<and>
                field r ''target'' \<in> JStr ` element_keys g))"
proof -
  note k = filter_model_keys[OF assms]
  have d: "\<forall>r \<in> set (graph_relationships g).
      field r ''source'' \<in> endpoints g \<and> field r ''target'' \<in> endpoints g"
    by (auto simp: endpoints_def rel_ids_def)
  have c: "JStr ` element_keys g = endpoints g
          \<and> (\<forall>r \<in> set (graph_relationships g).
                field r ''source'' \<in> JStr ` element_keys g \<and>
                field r ''target'' \<in> JStr ` element_keys g)"
    if sub: "endpoints g \<subseteq> JStr ` element_keys model"
  proof -
    from k sub have e: "JStr ` element_keys g = endpoints g" by blast
    from d show ?thesis unfolding e by simp
  qed
  show ?thesis
  proof (intro conjI impI)
    show "JStr ` element_keys g = endpoints g \<inter> JStr ` element_keys model" by (rule k)
    show "graph_relationships g =
        map normalized (filter kept (map snd (dict_items (field model ''relations''))))"
      by (rule filter_model_relationships[OF assms])
  next
    assume sub: "endpoints g \<subseteq> JStr ` element_keys model"
    from c[OF sub] show "JStr ` element_keys g = endpoints g" by (rule conjunct1)
    from c[OF sub] show "\<forall>r \<in> set (graph_relationships g).
        field r ''source'' \<in> JStr ` element_keys g \<and> field r ''target'' \<in> JStr ` element_keys g"
      by (rule conjunct2)
  qed
qed

text \<open>
  On the model with elements \<open>a\<close>, \<open>b\<close>, \<open>c\<close> and the relation from \<open>a\<close> to \<open>b\<close>:
  the endpoints are elements of the model, the graph keeps \<open>a\<close> and \<open>b\<close>, and the
  source of its relationship is a key of the graph.
\<close>

theorem filtered_graph_keys_and_relationships_witness:
  "filter_model ex_model = Inr ex_graph
   \<and> endpoints ex_graph \<subseteq> JStr ` element_keys ex_model
   \<and> JStr ` element_keys ex_graph = endpoints ex_graph
   \<and> element_keys ex_graph = {''a'', ''b''}
   \<and> field (JObj [(''source'', JStr ''a''), (''target'', JStr ''b''),
                    (''description'', JStr ''No description'')]) ''source''
       \<in> JStr ` element_keys ex_graph"
proof -
  have s: "endpoints ex_graph \<subseteq> JStr ` element_keys ex_model"
    by (simp add: ex_graph_def ex_model_def observe_eval)
  have m: "JObj [(''source'', JStr ''a''), (''target'', JStr ''b''),
                 (''description'', JStr ''No description'')] \<in> set (graph_relationships ex_graph)"
    by (simp add: ex_graph_def observe_eval)
  have ks: "element_keys ex_graph = {''a'', ''b''}"
    by (simp add: ex_graph_def observe_eval)
  note t = filtered_graph_keys_and_relationships[OF filter_ex_model]
  from t s have e: "JStr ` element_keys ex_graph = endpoints ex_graph" by (elim conjE impE)
  from t s have "\<forall>r \<in> set (graph_relationships ex_graph).
      field r ''source'' \<in> JStr ` element_keys ex_graph \<and>
      field r ''target'' \<in> JStr ` element_keys ex_graph"
    by (elim conjE impE)
  from bspec[OF this m] have f:
    "field (JObj [(''source'', JStr ''a''), (''target'', JStr ''b''),
                  (''description'', JStr ''No description'')]) ''source''
       \<in> JStr ` element_keys ex_graph"
    by (rule conjunct1)
  from filter_ex_model s e ks f show ?thesis by (intro conjI)
qed

text \<open>
  Against C2 as it is written: the relation from \<open>a\<close> to \<open>ghost\<close> is kept although
  \<open>ghost\<close> is no element, so an endpoint is missing from the element keys.
\<close>

theorem dangling_relationship_is_kept:
  "filter_model dangling_model = Inr dangling_graph
   \<and> JStr ''ghost'' \<in> endpoints dangling_graph
   \<and> ''ghost'' \<notin> element_keys dangling_model
   \<and> JStr ''ghost'' \<notin> JStr ` element_keys dangling_graph
   \<and> JStr ` element_keys dangling_graph \<noteq> endpoints dangling_graph"
proof -
  have a: "JStr ''ghost'' \<in> endpoints dangling_graph"
    by (simp add: dangling_graph_def observe_eval)
  have b: "JStr ''ghost'' \<notin> JStr ` element_keys dangling_graph"
    by (simp add: dangling_graph_def observe_eval)
  have c: "''ghost'' \<notin> element_keys dangling_model"
    by (simp add: dangling_model_def observe_eval)
  from a b have "JStr ` element_keys dangling_graph \<noteq> endpoints dangling_graph" by blast
  with a b c filter_dangling_model show ?thesis by blast
qed

subsection \<open>Filtering twice\<close>

text \<open>
  Claim C5, as the code has it. The graph the filter returns holds its relationships
  as a list under \<open>relationships\<close>, while the filter reads a mapping under
  \<open>relations\<close>: given its own output, the filter returns the empty graph. It is
  idempotent once the graph is written back in the shape of a model document, under
  any relation ids: filtering that document returns the identical graph.
\<close>

theorem filter_idempotent_after_reencoding:
  assumes "filter_model model = Inr g"
  shows "filter_model g = Inr empty_graph
     \<and> (\<forall>rel_keys. length rel_keys = length (graph_relationships g) \<longrightarrow>
           filter_model (as_model_document rel_keys g) = Inr g)"
  using filter_again_empty[OF assms] filter_reencoded[OF assms] by blast

theorem filter_idempotent_after_reencoding_witness:
  "filter_model ex_model = Inr ex_graph
   \<and> length [''r1''] = length (graph_relationships ex_graph)
   \<and> filter_model (as_model_document [''r1''] ex_graph) = Inr ex_graph
   \<and> filter_model ex_graph = Inr empty_graph"
proof -
  have l: "length [''r1''] = length (graph_relationships ex_graph)"
    by (simp add: ex_graph_def observe_eval)
  note t = filter_idempotent_after_reencoding[OF filter_ex_model]
  from t have "length [''r1''] = length (graph_relationships ex_graph) \<longrightarrow>
       filter_model (as_model_document [''r1''] ex_graph) = Inr ex_graph" by blast
  with l have r: "filter_model (as_model_document [''r1''] ex_graph) = Inr ex_graph"
    by (rule rev_mp)
  from t have e: "filter_model ex_graph = Inr empty_graph" by (rule conjunct1)
  from filter_ex_model l r e show ?thesis by (intro conjI)
qed

text \<open>
  Against C5 as it is written: filtering the graph of the example model again does
  not give that graph back.
\<close>

theorem filter_of_own_output_differs:
  "filter_model ex_model = Inr ex_graph \<and> filter_model ex_graph \<noteq> Inr ex_graph"
proof -
  have "filter_model ex_graph = Inr empty_graph"
    by (rule filter_again_empty[OF filter_ex_model])
  moreover have "ex_graph \<noteq> empty_graph"
    by (simp add: ex_graph_def empty_graph_def)
  ultimately show ?thesis using filter_ex_model by simp
qed

subsection \<open>A relation without a title\<close>

text \<open>
  Claim C10. When the filter returns a graph, every relation entry of the model
  document whose source and target ids are both present (and not empty) and which has
  no \<open>title\<close> key appears in the graph as the relationship between those ids with
  the description \<open>No description\<close>.
\<close>

theorem missing_title_gives_no_description:
  assumes "filter_model model = Inr g"
    and "(rel_id, JObj kvs) \<in> set (dict_items (field model ''relations''))"
    and "endpoint_id (JObj kvs) ''source'' = Inr s" and "truthy s"
    and "endpoint_id (JObj kvs) ''target'' = Inr t" and "truthy t"
    and "map_of kvs ''title'' = None"
  shows "relationship s t (JStr ''No description'') \<in> set (graph_relationships g)
       \<and> field (relationship s t (JStr ''No description'')) ''description'' = JStr ''No description''"
proof -
  have k: "kept (JObj kvs)"
    using assms(3-6) by (simp add: kept_def)
  have n: "normalized (JObj kvs) = relationship s t (JStr ''No description'')"
    using assms(3-7) by (simp add: normalized_def endpoint_id_field)
  have "JObj kvs \<in> set (filter kept (map snd (dict_items (field model ''relations''))))"
    using assms(2) k by force
  then have "normalized (JObj kvs)
      \<in> normalized ` set (filter kept (map snd (dict_items (field model ''relations''))))"
    by (rule imageI)
  then have "relationship s t (JStr ''No description'') \<in> set (graph_relationships g)"
    unfolding n filter_model_relationships[OF assms(1)] by simp
  then show ?thesis
    by (simp add: relationship_def field_def)
qed

theorem missing_title_gives_no_description_witness:
  "filter_model ex_model = Inr ex_graph
   \<and> map_of [(''source'', JObj [(''model'', JStr ''a'')]),
             (''target'', JObj [(''model'', JStr ''b'')])] ''title'' = None
   \<and> relationship (JStr ''a'') (JStr ''b'') (JStr ''No description'')
       \<in> set (graph_relationships ex_graph)"
proof -
  let ?kvs = "[(''source'', JObj [(''model'', JStr ''a'')]),
               (''target'', JObj [(''model'', JStr ''b'')])]"
  have m: "(''r1'', JObj ?kvs) \<in> set (dict_items (field ex_model ''relations''))"
    by (simp add: ex_model_def observe_eval)
  have s: "endpoint_id (JObj ?kvs) ''source'' = Inr (JStr ''a'')"
    by (simp add: endpoint_id_def)
  have t: "endpoint_id (JObj ?kvs) ''target'' = Inr (JStr ''b'')"
    by (simp add: endpoint_id_def)
  have n: "map_of ?kvs ''title'' = None" by simp
  from missing_title_gives_no_description[OF filter_ex_model m s _ t _ n]
  have "relationship (JStr ''a'') (JStr ''b'') (JStr ''No description'')
       \<in> set (graph_relationships ex_graph)" by simp
  with filter_ex_model n show ?thesis by (intro conjI)
qed

section \<open>Facts about the static pipeline driver\<close>

lemmas step_eval = raise_def and_then_def emit_def print_def print_error_def

lemmas world_eval = configure_llm_def export_model_to_json_def get_structured_model_data_def
  ask_llm_def call_openai_llm_for_json_def format_json_to_markdown_def save_table_def
  main_try_def main_def write_file_def step_eval Let_def
  MODEL_JSON_PATH_def TABLE_OUTPUT_PATH_def FIREWALL_JSON_PATH_def OPENAI_MODEL_def

lemmas example_eval = ex_world_def ex_python_def empty_model_text_def empty_model_def
  small_model_text_def small_model_def view_text_def rules_text_def

lemma print_ok:
  "stdout_error w = None \<Longrightarrow> print s w = (Inr (), w\<lparr>stdout := stdout w @ [Line s]\<rparr>)"
  by (simp add: step_eval)


lemma print_closed: "stdout_error w = Some e \<Longrightarrow> print s w = (Inl e, w)"
  by (simp add: step_eval)


text \<open>What each stage leaves alone.\<close>

lemma configure_llm_frame:
  assumes "configure_llm w = (r, w1)"
  shows "files w1 = files w" "write_errors w1 = write_errors w" "llm w1 = llm w"
    "llm_calls w1 = llm_calls w" "stdout_error w1 = stdout_error w"
  using assms
  by (auto simp: configure_llm_def step_eval split: option.splits if_splits)

lemma configure_llm_done:
  assumes "configure_llm w = (Inr u, w1)"
  shows "client w1 \<noteq> None" "stdout_error w = None"
  using assms
  by (auto simp: configure_llm_def step_eval split: option.splits if_splits)

lemma export_model_to_json_frame:
  assumes "export_model_to_json w = (r, w1)"
  shows "p \<noteq> MODEL_JSON_PATH \<Longrightarrow> files w1 p = files w p" "write_errors w1 = write_errors w"
    "llm w1 = llm w" "llm_calls w1 = llm_calls w" "client w1 = client w"
    "stdout_error w1 = stdout_error w"
  using assms
  by (auto simp: export_model_to_json_def step_eval Let_def
      split: option.splits if_splits prod.splits sum.splits)

lemma get_structured_model_data_frame:
  assumes "get_structured_model_data py w = (r, w1)"
  shows "files w1 = files w" "write_errors w1 = write_errors w" "llm w1 = llm w"
    "llm_calls w1 = llm_calls w" "client w1 = client w" "stdout_error w1 = stdout_error w"
  using assms
  by (auto simp: get_structured_model_data_def step_eval Let_def
      split: option.splits sum.splits if_splits prod.splits)

lemma get_structured_model_data_shape:
  assumes "get_structured_model_data py w = (Inr data, w1)"
  shows "\<exists>elems rels. data = JObj [(''elements'', JObj elems), (''relationships'', JArr rels)]"
  using assms
  by (auto simp: get_structured_model_data_def step_eval Let_def
      split: option.splits sum.splits if_splits prod.splits dest!: filter_model_shape)

lemma get_structured_model_data_relationships:
  assumes "get_structured_model_data py w = (Inr data, w1)"
  shows "py_get data ''relationships'' JNull = Inr (JArr (graph_relationships data))"
  using get_structured_model_data_shape[OF assms]
  by (auto simp: graph_relationships_def field_def list_items_def)

lemma save_table_ok:
  assumes "write_errors w TABLE_OUTPUT_PATH = None" "stdout_error w = None"
  shows "fst (save_table t w) = Inr ()"
    "files (snd (save_table t w)) = (files w)(TABLE_OUTPUT_PATH \<mapsto> t)"
    "llm_calls (snd (save_table t w)) = llm_calls w"
    "stdout_error (snd (save_table t w)) = None"
  using assms by (simp_all add: save_table_def write_file_def step_eval)

lemma call_openai_ok:
  assumes "client w \<noteq> None" "llm w data = Inr (Some text)" "json_loads py text = Inr v"
    "stdout_error w = None"
  shows "fst (call_openai_llm_for_json py data w) = Inr v"
    "write_errors (snd (call_openai_llm_for_json py data w)) = write_errors w"
    "stdout_error (snd (call_openai_llm_for_json py data w)) = None"
  using assms by (auto simp: call_openai_llm_for_json_def ask_llm_def Let_def step_eval)

lemma format_missing_rules:
  "map_of kvs ''rules'' = None \<Longrightarrow> stdout_error w = None \<Longrightarrow>
   format_json_to_markdown py (JObj kvs) w =
     (Inr ''No rules were generated by the LLM.'',
      w\<lparr>stdout := stdout w @ [Line ''Step 4: Formatting JSON data into a Markdown table...'']\<rparr>)"
  by (simp add: format_json_to_markdown_def step_eval)

lemma main_ok: "main_try py w = (Inr u, w1) \<Longrightarrow> main py w = (Inr (), w1)"
  by (simp add: main_def)

text \<open>The first three stages on the example worlds.\<close>

lemma stages_empty_model:
  "configure_llm (ex_world empty_model_text) = (Inr (), snd (configure_llm (ex_world empty_model_text)))"
  "export_model_to_json (snd (configure_llm (ex_world empty_model_text))) =
     (Inr (), snd (export_model_to_json (snd (configure_llm (ex_world empty_model_text)))))"
  "get_structured_model_data ex_python
       (snd (export_model_to_json (snd (configure_llm (ex_world empty_model_text))))) =
     (Inr empty_graph,
      snd (get_structured_model_data ex_python
             (snd (export_model_to_json (snd (configure_llm (ex_world empty_model_text)))))))"
  by (simp_all add: world_eval example_eval filter_eval empty_graph_def)

lemma stages_small_model:
  "configure_llm (ex_world small_model_text) = (Inr (), snd (configure_llm (ex_world small_model_text)))"
  "export_model_to_json (snd (configure_llm (ex_world small_model_text))) =
     (Inr (), snd (export_model_to_json (snd (configure_llm (ex_world small_model_text)))))"
  "get_structured_model_data ex_python
       (snd (export_model_to_json (snd (configure_llm (ex_world small_model_text))))) =
     (Inr small_graph,
      snd (get_structured_model_data ex_python
             (snd (export_model_to_json (snd (configure_llm (ex_world small_model_text)))))))"
  by (simp_all add: world_eval example_eval filter_eval small_graph_def)

subsection \<open>A model without relationships\<close>

text \<open>
  Claim C3, as the code has it. When configuration and export succeed and the
  extracted graph has no relationships, the driver writes the fixed text
  \<open>No rules could be generated because the C4 model does not contain any
  relationships.\<close> to the table file alone (when that file can be written), leaves the
  rule document \<open>dist/firewall_rules.json\<close> as it was, makes no call to the inference
  service, and ends without an exception.
\<close>

theorem no_relationships_writes_table_only:
  assumes "configure_llm w = (Inr (), w1)"
      and "export_model_to_json w1 = (Inr (), w2)"
      and "get_structured_model_data py w2 = (Inr data, w3)"
      and "graph_relationships data = []"
      and "write_errors w TABLE_OUTPUT_PATH = None"
  shows "fst (main_try py w) = Inr ()
       \<and> fst (main py w) = Inr ()
       \<and> files (snd (main py w)) TABLE_OUTPUT_PATH = Some no_relationships_text
       \<and> files (snd (main py w)) FIREWALL_JSON_PATH = files w FIREWALL_JSON_PATH
       \<and> llm_calls (snd (main py w)) = llm_calls w"
proof -
  from get_structured_model_data_relationships[OF assms(3)] assms(4)
  have rel: "py_get data ''relationships'' JNull = Inr (JArr [])" by simp
  have so: "stdout_error w3 = None"
    using configure_llm_done(2)[OF assms(1)] configure_llm_frame(5)[OF assms(1)]
      export_model_to_json_frame(6)[OF assms(2)] get_structured_model_data_frame(6)[OF assms(3)]
    by simp
  let ?w4 = "w3\<lparr>stdout := stdout w3 @
      [Line ''Execution stopped because no relationships were found in the model.'']\<rparr>"
  have we: "write_errors ?w4 TABLE_OUTPUT_PATH = None"
    using assms(5) configure_llm_frame(2)[OF assms(1)] export_model_to_json_frame(2)[OF assms(2)]
      get_structured_model_data_frame(2)[OF assms(3)]
    by simp
  have so4: "stdout_error ?w4 = None" using so by simp
  have mt: "main_try py w = save_table no_relationships_text ?w4"
    by (simp add: main_try_def and_then_def assms(1-3) rel print_ok[OF so])
  obtain w5 where st: "save_table no_relationships_text ?w4 = (Inr (), w5)"
    using save_table_ok(1)[OF we so4, of no_relationships_text]
    by (cases "save_table no_relationships_text ?w4") auto
  have m: "main py w = (Inr (), w5)"
    by (rule main_ok[of py w "()"]) (simp add: mt st)
  have f5: "files w5 = (files w3)(TABLE_OUTPUT_PATH \<mapsto> no_relationships_text)"
    using save_table_ok(2)[OF we so4, of no_relationships_text] unfolding st by simp
  have c5: "llm_calls w5 = llm_calls w3"
    using save_table_ok(3)[OF we so4, of no_relationships_text] unfolding st by simp
  have ne: "FIREWALL_JSON_PATH \<noteq> TABLE_OUTPUT_PATH" "FIREWALL_JSON_PATH \<noteq> MODEL_JSON_PATH"
    by (simp_all add: FIREWALL_JSON_PATH_def TABLE_OUTPUT_PATH_def MODEL_JSON_PATH_def)
  have f3: "files w3 FIREWALL_JSON_PATH = files w FIREWALL_JSON_PATH"
    using configure_llm_frame(1)[OF assms(1)] export_model_to_json_frame(1)[OF assms(2) ne(2)]
      get_structured_model_data_frame(1)[OF assms(3)] by simp
  have c3: "llm_calls w3 = llm_calls w"
    using configure_llm_frame(4)[OF assms(1)] export_model_to_json_frame(4)[OF assms(2)]
      get_structured_model_data_frame(4)[OF assms(3)] by simp
  show ?thesis
    using ne(1) by (simp add: m f5 c5 f3 c3 mt st)
qed

theorem no_relationships_writes_table_only_witness:
  "graph_relationships empty_graph = []
   \<and> fst (main_try ex_python (ex_world empty_model_text)) = Inr ()
   \<and> files (snd (main ex_python (ex_world empty_model_text))) TABLE_OUTPUT_PATH
       = Some no_relationships_text
   \<and> llm_calls (snd (main ex_python (ex_world empty_model_text))) = []"
proof -
  have r: "graph_relationships empty_graph = []"
    by (simp add: empty_graph_def observe_eval)
  have w: "write_errors (ex_world empty_model_text) TABLE_OUTPUT_PATH = None"
    by (simp add: ex_world_def)
  have c: "llm_calls (ex_world empty_model_text) = []"
    by (simp add: ex_world_def)
  from no_relationships_writes_table_only[OF stages_empty_model r w] r c
  show ?thesis by simp
qed

text \<open>
  Against C3 as it is written: after such a run the rule document does not hold the
  sentinel text; nothing was written there.
\<close>

theorem no_relationships_leaves_rule_document:
  "fst (main ex_python (ex_world empty_model_text)) = Inr ()
   \<and> files (snd (main ex_python (ex_world empty_model_text))) TABLE_OUTPUT_PATH
       = Some no_relationships_text
   \<and> files (snd (main ex_python (ex_world empty_model_text))) FIREWALL_JSON_PATH = None
   \<and> files (snd (main ex_python (ex_world empty_model_text))) FIREWALL_JSON_PATH
       \<noteq> Some no_relationships_text"
  by (simp add: world_eval example_eval filter_eval)

subsection \<open>A response without the \<open>rules\<close> key\<close>

text \<open>
  Claim C1, as the code has it. When the earlier stages succeed, the graph has a
  relationship, and the inference service answers with a JSON object that has no
  \<open>rules\<close> key, the driver raises nothing: it writes the fixed text
  \<open>No rules were generated by the LLM.\<close> to the table file (when that file can be
  written) and ends normally. Nothing is checked in the response: a rule object with
  none of the four fields is accepted too and rendered as a row of \<open>N/A\<close> cells.
\<close>

theorem missing_rules_key_writes_fallback_text:
  assumes "configure_llm w = (Inr (), w1)"
      and "export_model_to_json w1 = (Inr (), w2)"
      and "get_structured_model_data py w2 = (Inr data, w3)"
      and "graph_relationships data \<noteq> []"
      and "llm w data = Inr (Some text)"
      and "json_loads py text = Inr (JObj response)"
      and "map_of response ''rules'' = None"
      and "write_errors w TABLE_OUTPUT_PATH = None"
  shows "fst (main_try py w) = Inr ()
       \<and> fst (main py w) = Inr ()
       \<and> files (snd (main py w)) TABLE_OUTPUT_PATH = Some no_rules_text
       \<and> fst (format_json_to_markdown py (JObj [(''rules'', JArr [JObj []])]) w) =
           Inr (table_header @ table_separator @ ''| N/A | N/A | N/A | N/A |\<newline>'')"
proof -
  from get_structured_model_data_relationships[OF assms(3)] assms(4)
  obtain rels where rel: "py_get data ''relationships'' JNull = Inr (JArr rels)" "rels \<noteq> []"
    by blast
  note so0 = configure_llm_done(2)[OF assms(1)]
  have so: "stdout_error w3 = None"
    using so0 configure_llm_frame(5)[OF assms(1)]
      export_model_to_json_frame(6)[OF assms(2)] get_structured_model_data_frame(6)[OF assms(3)]
    by simp
  have cl: "client w3 \<noteq> None"
    using configure_llm_done(1)[OF assms(1)] export_model_to_json_frame(5)[OF assms(2)]
      get_structured_model_data_frame(5)[OF assms(3)] by simp
  have ll: "llm w3 data = Inr (Some text)"
    using assms(5) configure_llm_frame(3)[OF assms(1)] export_model_to_json_frame(3)[OF assms(2)]
      get_structured_model_data_frame(3)[OF assms(3)] by simp
  have we3: "write_errors w3 = write_errors w"
    using configure_llm_frame(2)[OF assms(1)] export_model_to_json_frame(2)[OF assms(2)]
      get_structured_model_data_frame(2)[OF assms(3)] by simp
  obtain w4 where c: "call_openai_llm_for_json py data w3 = (Inr (JObj response), w4)"
    and we4: "write_errors w4 = write_errors w3" and so4: "stdout_error w4 = None"
    using call_openai_ok[OF cl ll assms(6) so]
    by (cases "call_openai_llm_for_json py data w3") auto
  let ?w5 = "w4\<lparr>stdout := stdout w4 @
      [Line ''Step 4: Formatting JSON data into a Markdown table...'']\<rparr>"
  have we5: "write_errors ?w5 TABLE_OUTPUT_PATH = None"
    using assms(8) we3 we4 by simp
  have so5: "stdout_error ?w5 = None" using so4 by simp
  obtain w6 where st: "save_table ''No rules were generated by the LLM.'' ?w5 = (Inr (), w6)"
    using save_table_ok(1)[OF we5 so5, of "''No rules were generated by the LLM.''"]
    by (cases "save_table ''No rules were generated by the LLM.'' ?w5") auto
  have f6: "files w6 TABLE_OUTPUT_PATH = Some ''No rules were generated by the LLM.''"
    using save_table_ok(2)[OF we5 so5, of "''No rules were generated by the LLM.''"]
    unfolding st by simp
  have so6: "stdout_error w6 = None"
    using save_table_ok(4)[OF we5 so5, of "''No rules were generated by the LLM.''"]
    unfolding st by simp
  have mt: "fst (main_try py w) = Inr () \<and>
            files (snd (main_try py w)) TABLE_OUTPUT_PATH =
              Some ''No rules were generated by the LLM.''"
    using rel(2) f6 so6
    by (simp add: main_try_def and_then_def assms(1-3) rel(1) c
        format_missing_rules[OF assms(7) so4] st print_ok)
  have row: "fst (format_json_to_markdown py (JObj [(''rules'', JArr [JObj []])]) w) =
           Inr (table_header @ table_separator @ ''| N/A | N/A | N/A | N/A |\<newline>'')"
    using so0 by (simp add: format_json_to_markdown_def step_eval table_row_def)
  obtain w7 where m7: "main_try py w = (Inr (), w7)"
    using mt by (cases "main_try py w") auto
  from main_ok[OF m7] mt row show ?thesis
    by (simp add: m7 no_rules_text_def)
qed

theorem missing_rules_key_writes_fallback_text_witness:
  "graph_relationships small_graph \<noteq> []
   \<and> llm (ex_world small_model_text) small_graph = Inr (Some ''{}'')
   \<and> json_loads ex_python ''{}'' = Inr (JObj [])
   \<and> fst (main_try ex_python (ex_world small_model_text)) = Inr ()
   \<and> files (snd (main ex_python (ex_world small_model_text))) TABLE_OUTPUT_PATH
       = Some no_rules_text"
proof -
  have r: "graph_relationships small_graph \<noteq> []"
    by (simp add: small_graph_def observe_eval)
  have l: "llm (ex_world small_model_text) small_graph = Inr (Some ''{}'')"
    by (simp add: ex_world_def)
  have j: "json_loads ex_python ''{}'' = Inr (JObj [])"
    by (simp add: ex_python_def)
  have n: "map_of ([] :: (string \<times> json) list) ''rules'' = None" by simp
  have w: "write_errors (ex_world small_model_text) TABLE_OUTPUT_PATH = None"
    by (simp add: ex_world_def)
  from missing_rules_key_writes_fallback_text[OF stages_small_model r l j n w] r l j
  show ?thesis by simp
qed

text \<open>
  Against C1 as it is written: on the answer \<^verbatim>\<open>{}\<close> the body of \<open>main\<close> ends
  without an exception, and the table file, which did not exist, has been written.
\<close>

theorem missing_rules_key_raises_nothing:
  "json_loads ex_python ''{}'' = Inr (JObj [])
   \<and> fst (main_try ex_python (ex_world small_model_text)) = Inr ()
   \<and> files (ex_world small_model_text) TABLE_OUTPUT_PATH = None
   \<and> files (snd (main ex_python (ex_world small_model_text))) TABLE_OUTPUT_PATH
       = Some ''No rules were generated by the LLM.''"
  by (simp add: world_eval example_eval filter_eval)

subsection \<open>Exceptions and \<open>main\<close>\<close>
















section \<open>Facts about the live path\<close>

lemmas live_eval = parse_c4_view_def save_firewall_outputs_def md_line_def md_header_def
  write_file_def logging_def Let_def strip_def is_space_def
  FIREWALL_JSON_PATH_def FIREWALL_MD_PATH_def




lemma get_cell:
  "format_value py (case map_of kvs k of None \<Rightarrow> JStr p | Some v \<Rightarrow> v) = cell py kvs k p"
  by (simp add: cell_def split: option.splits)

lemma table_row_static: "table_row py (JObj kvs) = Inr (static_row py kvs)"
  by (simp add: table_row_def static_row_def table_line_def get_cell)

lemma table_rows_static: "table_rows py (map JObj rules) = Inr (map (static_row py) rules)"
  by (induction rules) (simp_all add: table_row_static)

lemma md_line_live: "md_line py (JObj kvs) = Inr (live_row py kvs)"
  by (simp add: md_line_def live_row_def table_line_def get_cell Let_def)

lemma md_loop_live: "md_loop py (map JObj rules) acc = Inr (acc @ map (live_row py) rules)"
  by (induction rules arbitrary: acc) (simp_all add: md_line_live)

lemma strip_space: "strip '' '' = []"
  by (simp add: strip_def is_space_def)


subsection \<open>What the live parser builds\<close>



subsection \<open>A payload that is not JSON\<close>

text \<open>
  Claim C8, as the code has it. When the JSON parser raises \<open>JSONDecodeError\<close> on
  the payload, the live parser raises nothing: it returns the graph with no elements
  and no relationships, and the log gains the error
  \<open>Failed to parse view content as JSON.\<close> after the line that announces the
  parsing. The handler names that one class: when the JSON parser raises any other
  exception, that exception leaves the live parser, and the log holds the announcing
  line only.
\<close>

theorem decode_error_gives_empty_graph:
  "(\<forall>msg. json_loads py text = Inl (JSONDecodeError msg) \<longrightarrow>
       parse_c4_view py text w =
         (Inr \<lparr>g_elements = [], g_relationships = []\<rparr>,
          w\<lparr>log := log w @ [(INFO, ''Parsing view content...''),
                             (ERROR, ''Failed to parse view content as JSON.'')]\<rparr>))
   \<and> (\<forall>e. json_loads py text = Inl e \<and> (\<forall>msg. e \<noteq> JSONDecodeError msg) \<longrightarrow>
       parse_c4_view py text w =
         (Inl e, w\<lparr>log := log w @ [(INFO, ''Parsing view content...'')]\<rparr>))"
proof (intro conjI allI impI)
  fix msg
  assume "json_loads py text = Inl (JSONDecodeError msg)"
  then show "parse_c4_view py text w =
         (Inr \<lparr>g_elements = [], g_relationships = []\<rparr>,
          w\<lparr>log := log w @ [(INFO, ''Parsing view content...''),
                             (ERROR, ''Failed to parse view content as JSON.'')]\<rparr>)"
    by (simp add: parse_c4_view_def Let_def logging_def)
next
  fix e
  assume a: "json_loads py text = Inl e \<and> (\<forall>msg. e \<noteq> JSONDecodeError msg)"
  then show "parse_c4_view py text w =
         (Inl e, w\<lparr>log := log w @ [(INFO, ''Parsing view content...'')]\<rparr>)"
    by (cases e) (simp_all add: parse_c4_view_def Let_def logging_def)
qed

lemma long_number_refused:
  "json_loads ex_python long_number_text =
     Inl (ValueError ''Exceeds the limit (4300 digits) for integer string conversion: value has 4301 digits; use sys.set_int_max_str_digits() to increase the limit'')"
proof -
  have l: "length long_number_text = 4301" by (simp add: long_number_text_def)
  have s: "set long_number_text = {CHR ''1''}" by (simp add: long_number_text_def)
  have n: "show_nat 4301 = ''4301''" by (simp add: show_nat.simps digit_chars_def)
  show ?thesis by (simp add: ex_python_def l s n)
qed

theorem decode_error_gives_empty_graph_witness:
  "json_loads ex_python ''<html>'' =
       Inl (JSONDecodeError ''Expecting value: line 1 column 1 (char 0)'')
   \<and> fst (parse_c4_view ex_python ''<html>'' (ex_world [])) =
        Inr \<lparr>g_elements = [], g_relationships = []\<rparr>
   \<and> log (snd (parse_c4_view ex_python ''<html>'' (ex_world []))) =
        [(INFO, ''Parsing view content...''), (ERROR, ''Failed to parse view content as JSON.'')]
   \<and> fst (parse_c4_view ex_python long_number_text (ex_world [])) =
        Inl (ValueError ''Exceeds the limit (4300 digits) for integer string conversion: value has 4301 digits; use sys.set_int_max_str_digits() to increase the limit'')
   \<and> log (snd (parse_c4_view ex_python long_number_text (ex_world []))) =
        [(INFO, ''Parsing view content...'')]"
proof -
  have j: "json_loads ex_python ''<html>'' =
      Inl (JSONDecodeError ''Expecting value: line 1 column 1 (char 0)'')"
    by (simp add: example_eval)
  let ?e = "ValueError ''Exceeds the limit (4300 digits) for integer string conversion: value has 4301 digits; use sys.set_int_max_str_digits() to increase the limit''"
  have k: "json_loads ex_python long_number_text = Inl ?e \<and> (\<forall>msg. ?e \<noteq> JSONDecodeError msg)"
    using long_number_refused by simp
  note a = decode_error_gives_empty_graph[of ex_python "''<html>''" "ex_world []",
      THEN conjunct1, rule_format, OF j]
  note b = decode_error_gives_empty_graph[of ex_python long_number_text "ex_world []",
      THEN conjunct2, rule_format, OF k]
  from a b j show ?thesis by (simp add: ex_world_def)
qed

text \<open>
  Against C8 as it is written: a payload of 4301 digits does not parse, since Python
  refuses to convert an integer that long, and the \<open>ValueError\<close> leaves the live
  parser: no empty graph is returned, and the failure is not logged.
\<close>

theorem long_number_view_raises:
  "fst (parse_c4_view ex_python long_number_text (ex_world [])) =
        Inl (ValueError ''Exceeds the limit (4300 digits) for integer string conversion: value has 4301 digits; use sys.set_int_max_str_digits() to increase the limit'')
   \<and> fst (parse_c4_view ex_python long_number_text (ex_world [])) \<noteq>
        Inr \<lparr>g_elements = [], g_relationships = []\<rparr>
   \<and> log (snd (parse_c4_view ex_python long_number_text (ex_world []))) =
        [(INFO, ''Parsing view content...'')]"
  by (simp add: parse_c4_view_def Let_def logging_def long_number_refused ex_world_def)

subsection \<open>The two tables\<close>

text \<open>
  Claim C6, as the code has it. For a non-empty sequence of rule objects, each table
  (the static one when standard output can be written, the live one when both files
  can be written) has one line per rule, in the order of the rules, after the header
  \<open>Source, Port, Destination, Description\<close> and its separator, and every line holds
  its four cells in that order. On the static path the cells are the fields
  \<open>source\<close>, \<open>port\<close>, \<open>destination\<close>, \<open>description\<close>, each replaced by \<open>N/A\<close>
  when the rule lacks it. On the live path the cells are \<open>source\<close>, then the fields
  \<open>protocol\<close> and \<open>port\<close> joined by a space and stripped, then \<open>target\<close> and
  \<open>purpose\<close>, each field replaced by the empty string when the rule lacks it; so
  the Port cell is empty when the rule lacks both \<open>protocol\<close> and \<open>port\<close>.
\<close>

theorem tables_one_row_per_rule:
  assumes "rules \<noteq> []"
  shows "(stdout_error w = None \<and> map_of response ''rules'' = Some (JArr (map JObj rules)) \<longrightarrow>
            fst (format_json_to_markdown py (JObj response) w) =
              Inr (table_header @ table_separator
                   @ join ''\<newline>'' (map (static_row py) rules) @ ''\<newline>''))
       \<and> (write_errors w FIREWALL_JSON_PATH = None \<and> write_errors w FIREWALL_MD_PATH = None \<longrightarrow>
            files (snd (save_firewall_outputs py (JArr (map JObj rules)) w)) FIREWALL_MD_PATH =
              Some (join ''\<newline>'' (md_header @ map (live_row py) rules)))
       \<and> length (map (static_row py) rules) = length rules
       \<and> length (map (live_row py) rules) = length rules
       \<and> (\<forall>rule key placeholder.
            map_of rule key = None \<longrightarrow> cell py rule key placeholder = placeholder)
       \<and> (\<forall>rule. map_of rule ''protocol'' = None \<and> map_of rule ''port'' = None \<longrightarrow>
            strip (cell py rule ''protocol'' [] @ '' '' @ cell py rule ''port'' []) = [])"
proof (intro conjI impI allI)
  assume "stdout_error w = None \<and> map_of response ''rules'' = Some (JArr (map JObj rules))"
  with assms show "fst (format_json_to_markdown py (JObj response) w) =
      Inr (table_header @ table_separator
           @ join ''\<newline>'' (map (static_row py) rules) @ ''\<newline>'')"
    by (simp add: format_json_to_markdown_def step_eval table_rows_static)
next
  assume "write_errors w FIREWALL_JSON_PATH = None \<and> write_errors w FIREWALL_MD_PATH = None"
  then show "files (snd (save_firewall_outputs py (JArr (map JObj rules)) w)) FIREWALL_MD_PATH =
      Some (join ''\<newline>'' (md_header @ map (live_row py) rules))"
    by (simp add: save_firewall_outputs_def write_file_def logging_def Let_def md_loop_live)
next
  show "length (map (static_row py) rules) = length rules" by simp
  show "length (map (live_row py) rules) = length rules" by simp
next
  fix rule :: "(string \<times> json) list" and key placeholder
  assume "map_of rule key = None"
  then show "cell py rule key placeholder = placeholder" by (simp add: cell_def)
next
  fix rule :: "(string \<times> json) list"
  assume "map_of rule ''protocol'' = None \<and> map_of rule ''port'' = None"
  then show "strip (cell py rule ''protocol'' [] @ '' '' @ cell py rule ''port'' []) = []"
    by (simp add: cell_def strip_space)
qed

text \<open>
  Two rules, the first with a source only, the second with every field: each table
  has the two lines in that order. On the static path the three missing cells of the
  first rule are \<open>N/A\<close>, on the live path they are empty.
\<close>

theorem tables_one_row_per_rule_witness:
  "[source_only_rule, full_rule] \<noteq> []
   \<and> fst (format_json_to_markdown ex_python
             (JObj [(''rules'', JArr [JObj source_only_rule, JObj full_rule])]) (ex_world [])) =
        Inr ''| Source | Port | Destination | Description |\<newline>|--------|------|-------------|-------------|\<newline>| web | N/A | N/A | N/A |\<newline>| api | 5432 | db | reads |\<newline>''
   \<and> files (snd (save_firewall_outputs ex_python (JArr [JObj source_only_rule, JObj full_rule])
                    (ex_world []))) FIREWALL_MD_PATH =
        Some ''| Source | Port | Destination | Description |\<newline>|--------|------|-------------|-------------|\<newline>| web |  |  |  |\<newline>| api | TCP 5432 | db | reads |''"
proof -
  let ?rules = "[source_only_rule, full_rule]"
  have n: "?rules \<noteq> []" by simp
  note t = tables_one_row_per_rule[OF n, of "ex_world []" "[(''rules'', JArr (map JObj ?rules))]"
      ex_python]
  have r: "stdout_error (ex_world []) = None \<and>
      map_of [(''rules'', JArr (map JObj ?rules))] ''rules'' = Some (JArr (map JObj ?rules))"
    by (simp add: ex_world_def)
  have w: "write_errors (ex_world []) FIREWALL_JSON_PATH = None \<and>
           write_errors (ex_world []) FIREWALL_MD_PATH = None"
    by (simp add: ex_world_def)
  note s = t[THEN conjunct1, rule_format, OF r]
  note l = t[THEN conjunct2, THEN conjunct1, rule_format, OF w]
  have c: "cell ex_python source_only_rule k ''N/A'' = ''N/A''"
    if "k \<in> {''port'', ''destination'', ''description''}" for k
    by (rule t[THEN conjunct2, THEN conjunct2, THEN conjunct2, THEN conjunct2, THEN conjunct1,
          rule_format]) (use that in \<open>auto simp: source_only_rule_def\<close>)
  have e: "cell ex_python source_only_rule k [] = []"
    if "k \<in> {''target'', ''purpose''}" for k
    by (rule t[THEN conjunct2, THEN conjunct2, THEN conjunct2, THEN conjunct2, THEN conjunct1,
          rule_format]) (use that in \<open>auto simp: source_only_rule_def\<close>)
  have p: "strip (cell ex_python source_only_rule ''protocol'' [] @ '' ''
                  @ cell ex_python source_only_rule ''port'' []) = []"
    by (rule t[THEN conjunct2, THEN conjunct2, THEN conjunct2, THEN conjunct2, THEN conjunct2,
          rule_format]) (simp add: source_only_rule_def)
  have src: "cell ex_python source_only_rule ''source'' d = ''web''" for d
    by (simp add: cell_def source_only_rule_def)
  have sr: "static_row ex_python source_only_rule = ''| web | N/A | N/A | N/A |''"
    using c by (simp add: static_row_def table_line_def src)
  have lr: "live_row ex_python source_only_rule = ''| web |  |  |  |''"
    using p e by (simp add: live_row_def table_line_def src)
  have sf: "static_row ex_python full_rule = ''| api | 5432 | db | reads |''"
    by (simp add: static_row_def table_line_def cell_def full_rule_def)
  have lf: "live_row ex_python full_rule = ''| api | TCP 5432 | db | reads |''"
    by (simp add: live_row_def table_line_def cell_def full_rule_def strip_def is_space_def)
  from s l show ?thesis
    by (simp add: sr lr sf lf table_header_def table_separator_def md_header_def)
qed

text \<open>
  Against C6 as it is written: a live rule that lacks \<open>port\<close> but has a protocol
  gets the protocol in its Port cell, not the empty string.
\<close>

theorem live_port_cell_holds_protocol:
  "map_of protocol_only_rule ''port'' = None
   \<and> md_line ex_python (JObj protocol_only_rule) = Inr ''| web | TCP | db | reads |''
   \<and> files (snd (save_firewall_outputs ex_python (JArr [JObj protocol_only_rule]) (ex_world [])))
        FIREWALL_MD_PATH =
      Some ''| Source | Port | Destination | Description |\<newline>|--------|------|-------------|-------------|\<newline>| web | TCP | db | reads |''"
  by (simp add: protocol_only_rule_def live_eval ex_world_def)

section \<open>Facts about reading the rule document\<close>

subsection \<open>Strings\<close>








subsection \<open>Whitespace and the two loops\<close>



















subsection \<open>Lists and dicts\<close>
















subsection \<open>The rule document read back\<close>



end
